theory Spec2Isabelle
  imports Complex_Main "HOL-Library.Word"
begin

section \<open>Python values shared by the modules\<close>

text \<open>
  Exceptions are values. An index outside a sequence raises \<open>IndexError\<close>, an attribute
  read before it was assigned raises \<open>AttributeError\<close>, the two explicit checks
  of the texture code raise \<open>ValueError\<close> with their message, and the engine refuses
  an image of the wrong size with \<open>AssertionError\<close>.
\<close>

datatype error = IndexError | AttributeError string | ValueError string | AssertionError

text \<open>The sentinels a task hands back to the task manager: \<open>Task.cont\<close> and \<open>Task.done\<close>.\<close>

datatype sentinel = Cont | Done

text \<open>
  Indexing \<open>xs[i]\<close>: a negative index counts from the end, anything outside
  \<open>-len \<dots> len-1\<close> raises.
\<close>

definition py_index :: "'a list \<Rightarrow> int \<Rightarrow> error + 'a" where
  "py_index xs i =
     (let n = int (length xs) in
      if 0 \<le> i \<and> i < n then Inr (xs ! nat i)
      else if - n \<le> i \<and> i < 0 then Inr (xs ! nat (n + i))
      else Inl IndexError)"

section \<open>drifting_grating_experiment.py: the event structure\<close>

text \<open>
  The experimental parameters at the top of the module. The module fixes them as tuples;
  they are kept as a record so that the derived quantities are functions of them.
\<close>

record params =
  stim_durations :: "real list"
  angles :: "real list"
  shift_velocities :: "real list"
  inter_stimulus_times :: "real list"

definition module_params :: params where
  "module_params =
     \<lparr> stim_durations = [4, 4, 6, 5],
       angles = [-20, 20, 45, 90],
       shift_velocities = [-0.15, 0.05, 0.25, -0.1],
       inter_stimulus_times = [4, 3, 3, 2.5, 5] \<rparr>"

text \<open>\<open>itertools.zip_longest\<close> with the default fill value \<open>None\<close>.\<close>

fun zip_longest :: "'a list \<Rightarrow> 'b list \<Rightarrow> ('a option \<times> 'b option) list" where
  "zip_longest [] [] = []"
| "zip_longest (x # xs) [] = (Some x, None) # zip_longest xs []"
| "zip_longest [] (y # ys) = (None, Some y) # zip_longest [] ys"
| "zip_longest (x # xs) (y # ys) = (Some x, Some y) # zip_longest xs ys"

text \<open>
  The comprehension \<open>[y for x in zip_longest(a, b) for y in x if y is not None]\<close>:
  every pair is walked left to right and the fill values are dropped.
\<close>

fun not_none :: "'a option list \<Rightarrow> 'a list" where
  "not_none [] = []"
| "not_none (None # ys) = not_none ys"
| "not_none (Some y # ys) = y # not_none ys"

definition flatten_pairs :: "('a option \<times> 'a option) list \<Rightarrow> 'a list" where
  "flatten_pairs ps = not_none (concat (map (\<lambda>(a, b). [a, b]) ps))"

text \<open>
  \<open>np.cumsum\<close>: the running sums, one per element. The sums are taken in the reals; the
  code adds binary64 floats, so a sum of durations that are not binary fractions can
  differ from the real sum in its last bits (0.1 + 0.7 is 0.7999999999999999 there). The
  statements below are about lengths and about comparisons with whatever the change times
  are, which this does not touch.
\<close>

fun cumsum_from :: "real \<Rightarrow> real list \<Rightarrow> real list" where
  "cumsum_from acc [] = []"
| "cumsum_from acc (x # xs) = (acc + x) # cumsum_from (acc + x) xs"

definition cumsum :: "real list \<Rightarrow> real list" where
  "cumsum xs = cumsum_from 0 xs"

definition num_stim :: "params \<Rightarrow> nat" where
  "num_stim p = length (stim_durations p)"

definition event_durations :: "params \<Rightarrow> real list" where
  "event_durations p = flatten_pairs (zip_longest (inter_stimulus_times p) (stim_durations p))"

text \<open>\<open>np.cumsum(event_durations)[:-1]\<close>; the slice \<open>[:-1]\<close> of an empty array is empty.\<close>

definition event_change_times :: "params \<Rightarrow> real list" where
  "event_change_times p = butlast (cumsum (event_durations p))"

definition num_event_changes :: "params \<Rightarrow> nat" where
  "num_event_changes p = length (event_change_times p)"

text \<open>The two \<open>assert\<close> statements under "quick tests".\<close>

definition quick_tests :: "params \<Rightarrow> bool" where
  "quick_tests p \<longleftrightarrow>
     length (inter_stimulus_times p) = num_stim p + 1 \<and> num_event_changes p = num_stim p * 2"

section \<open>drifting_grating_experiment.py: \<open>MyApp\<close>\<close>

type_synonym color = "real \<times> real \<times> real \<times> real"

definition bgcolor :: color where
  "bgcolor = (0.5, 0.5, 0.5, 1)"

text \<open>
  The attributes of \<open>MyApp\<close> that the task reads or writes, and what it asks of the
  engine: the window title, and the colour, texture stage, rotation and texture offset of
  \<open>card1\<close>. Calls into the engine are taken to succeed; \<open>print\<close> is left out.
\<close>

record MyApp =
  event_change_num :: int
  stim_num :: int
  baseline_stim :: bool
  windowProps_title :: string
  card1_color :: color
  card1_textured :: bool
  card1_R :: real
  card1_texpos :: real

text \<open>\<open>MyApp.__init__\<close>; \<open>angles[self.stim_num]\<close> is \<open>angles[-1]\<close> there.\<close>

definition MyApp_init :: "params \<Rightarrow> error + MyApp" where
  "MyApp_init p =
     (case py_index (angles p) (- 1) of
        Inl e \<Rightarrow> Inl e
      | Inr a \<Rightarrow>
          Inr \<lparr> event_change_num = 0, stim_num = - 1, baseline_stim = True,
                windowProps_title = ''Full field: running'',
                card1_color = bgcolor, card1_textured = False,
                card1_R = a, card1_texpos = 0 \<rparr>)"

text \<open>
  Blocks of \<open>moveTextureTask\<close> return the state they leave behind and the exception
  they raised, if any: an assignment made before a raise stays made.

  Lines 88-92: the baseline ends, the next stimulus is switched on.
\<close>

definition stimulus_on :: "params \<Rightarrow> MyApp \<Rightarrow> MyApp \<times> error option" where
  "stimulus_on p s =
     (let s1 = s\<lparr> stim_num := stim_num s + 1, card1_color := (1, 1, 1, 1),
                   card1_textured := True \<rparr>
      in case py_index (angles p) (stim_num s1) of
           Inl e \<Rightarrow> (s1, Some e)
         | Inr a \<Rightarrow> (s1\<lparr> card1_R := a \<rparr>, None))"

text \<open>Lines 94-95: the stimulus ends, the texture stage is cleared.\<close>

definition stimulus_off :: "MyApp \<Rightarrow> MyApp" where
  "stimulus_off s = s\<lparr> card1_color := bgcolor, card1_textured := False \<rparr>"

text \<open>Lines 86-98, the body of \<open>if task.time >= event_change_times[...]\<close>.\<close>

definition change_event :: "params \<Rightarrow> MyApp \<Rightarrow> MyApp \<times> error option" where
  "change_event p s =
     (if event_change_num s < int (num_event_changes p) then
        (case (if baseline_stim s then stimulus_on p s else (stimulus_off s, None)) of
           (s1, Some e) \<Rightarrow> (s1, Some e)
         | (s1, None) \<Rightarrow>
             (s1\<lparr> baseline_stim := \<not> baseline_stim s1,
                   event_change_num := event_change_num s1 + 1 \<rparr>, None))
      else (s, None))"

text \<open>Lines 99-101: while a stimulus shows, the texture is shifted.\<close>

definition shift_texture :: "params \<Rightarrow> MyApp \<Rightarrow> real \<Rightarrow> MyApp \<times> error option" where
  "shift_texture p s t =
     (if \<not> baseline_stim s then
        (case py_index (shift_velocities p) (stim_num s) of
           Inl e \<Rightarrow> (s, Some e)
         | Inr v \<Rightarrow> (s\<lparr> card1_texpos := t * v \<rparr>, None))
      else (s, None))"

text \<open>Lines 103-109: continue until the last change time has passed.\<close>

definition continue_or_finish :: "params \<Rightarrow> MyApp \<Rightarrow> real \<Rightarrow> MyApp \<times> (error + sentinel)" where
  "continue_or_finish p s t =
     (case py_index (event_change_times p) (- 1) of
        Inl e \<Rightarrow> (s, Inl e)
      | Inr last_change \<Rightarrow>
          if t \<le> last_change then (s, Inr Cont)
          else (s\<lparr> windowProps_title := ''Full field: done'' \<rparr>, Inr Done))"

text \<open>\<open>MyApp.moveTextureTask(task)\<close>, with \<open>t\<close> for \<open>task.time\<close>.\<close>

definition moveTextureTask :: "params \<Rightarrow> MyApp \<Rightarrow> real \<Rightarrow> MyApp \<times> (error + sentinel)" where
  "moveTextureTask p s t =
     (case py_index (event_change_times p) (event_change_num s) of
        Inl e \<Rightarrow> (s, Inl e)
      | Inr change_time \<Rightarrow>
          (case (if t \<ge> change_time then change_event p s else (s, None)) of
             (s1, Some e) \<Rightarrow> (s1, Inl e)
           | (s1, None) \<Rightarrow>
               (case shift_texture p s1 t of
                  (s2, Some e) \<Rightarrow> (s2, Inl e)
                | (s2, None) \<Rightarrow> continue_or_finish p s2 t)))"

text \<open>
  The task manager calls the task once per frame for as long as it returns \<open>Task.cont\<close>;
  an exception ends the application. The log holds one entry per invocation: the state
  before, the elapsed time, the state after.
\<close>

fun MyApp_run :: "params \<Rightarrow> MyApp \<Rightarrow> real list \<Rightarrow> (MyApp \<times> real \<times> MyApp) list" where
  "MyApp_run p s [] = []"
| "MyApp_run p s (t # ts) =
     (case moveTextureTask p s t of
        (s', Inr Cont) \<Rightarrow> (s, t, s') # MyApp_run p s' ts
      | (s', _) \<Rightarrow> [(s, t, s')])"

section \<open>drifting_grating_experiment.py: the grating texture\<close>

text \<open>
  A numpy array of any number of dimensions: a scalar element, or a sequence of arrays
  along the first axis. Element-wise operations are \<open>map_ndarray\<close>.
\<close>

datatype 'a ndarray = Elem 'a | Arr "'a ndarray list"

text \<open>
  \<open>scipy.signal.square\<close> with its default duty cycle of one half, as scipy defines it:
  \<open>1\<close> where \<open>t mod 2\<pi>\<close> lies below \<open>\<pi>\<close> and \<open>-1\<close> elsewhere. Floats are
  modelled by the reals; the two levels and the values \<open>0\<close> and \<open>255\<close> computed from
  them are exact in binary floating point. Which of the two levels an element gets can
  differ from the code where \<open>x * freq\<close> lies within rounding of a multiple of \<open>\<pi>\<close>, as
  scipy reduces the argument in binary64; that every element is on one of the two levels
  does not depend on it.
\<close>

definition signal_square :: "real \<Rightarrow> real" where
  "signal_square t =
     (if t - 2 * pi * of_int \<lfloor>t / (2 * pi)\<rfloor> < pi then 1 else - 1)"

definition squareWave :: "real ndarray \<Rightarrow> real \<Rightarrow> real ndarray" where
  "squareWave X freq = map_ndarray (\<lambda>x. signal_square (x * freq)) X"

text \<open>
  The conversion of a float to \<open>np.uint8\<close> by \<open>np.asarray(_, dtype = np.uint8)\<close>: the
  fraction is cut off towards zero. The result type is the 8-bit word.
\<close>

definition to_uint8 :: "real \<Rightarrow> 8 word" where
  "to_uint8 v = word_of_int (if 0 \<le> v then \<lfloor>v\<rfloor> else \<lceil>v\<rceil>)"

text \<open>\<open>square8bit(X, freq)\<close> reads its two arguments and nothing else of the module.\<close>

definition square8bit :: "real ndarray \<Rightarrow> real \<Rightarrow> 8 word ndarray" where
  "square8bit X freq =
     (let square_float = squareWave X freq;
          square_pos = map_ndarray (\<lambda>v. (v + 1) * 127.5) square_float
      in map_ndarray to_uint8 square_pos)"

text \<open>Two arrays have the same shape when they agree once their elements are erased.\<close>

definition shape_of :: "'a ndarray \<Rightarrow> unit ndarray" where
  "shape_of A = map_ndarray (\<lambda>_. ()) A"

section \<open>stimulus_classes.py: texture arrays\<close>

datatype dtype =
    np_uint8 | np_uint16 | np_uint32 | np_uint64
  | np_int8 | np_int16 | np_int32 | np_int64
  | np_float16 | np_float32 | np_float64 | np_bool

text \<open>
  The classes read two things of a texture array, the type of its first element and its
  number of dimensions, and hand the array to the engine as it is; the record keeps the
  element type and the shape.
\<close>

record texture_array =
  arr_dtype :: dtype
  arr_shape :: "nat list"

definition ndim :: "texture_array \<Rightarrow> nat" where
  "ndim a = length (arr_shape a)"

definition arr_size :: "texture_array \<Rightarrow> nat" where
  "arr_size a = prod_list (arr_shape a)"

text \<open>\<open>type(texture_array.flat[0])\<close>: an array without elements has no element 0.\<close>

definition flat0_type :: "texture_array \<Rightarrow> error + dtype" where
  "flat0_type a = (if arr_size a = 0 then Inl IndexError else Inr (arr_dtype a))"

datatype component_type = T_unsigned_byte | T_unsigned_short

datatype texture_format = F_luminance | F_rgb8

text \<open>
  A \<open>Texture\<close> object: its name and, once \<open>setup2dTexture\<close> and \<open>setRamImageAs\<close> have
  run, the component type, the format, the format string and the image.
\<close>

record Texture =
  tex_name :: string
  tex_setup :: "(component_type \<times> texture_format \<times> string \<times> texture_array) option"

text \<open>
  The engine's \<open>Texture.setRamImageAs(image, provided_format)\<close> takes the image only if
  it has exactly the bytes of the texture that \<open>setup2dTexture(texture_size, texture_size,
  component_type, format)\<close> set up: the width of a component times the number of channels
  of the format string times \<open>texture_size\<^sup>2\<close>. Otherwise the call fails with
  \<open>AssertionError\<close>. The bytes of an array are its elements times the bytes of one.
\<close>

definition itemsize :: "dtype \<Rightarrow> nat" where
  "itemsize d =
     (if d = np_uint8 \<or> d = np_int8 \<or> d = np_bool then 1
      else if d = np_uint16 \<or> d = np_int16 \<or> d = np_float16 then 2
      else if d = np_uint32 \<or> d = np_int32 \<or> d = np_float32 then 4
      else 8)"

definition component_width :: "component_type \<Rightarrow> nat" where
  "component_width c = (case c of T_unsigned_byte \<Rightarrow> 1 | T_unsigned_short \<Rightarrow> 2)"

definition ram_image_fits :: "texture_array \<Rightarrow> component_type \<Rightarrow> string \<Rightarrow> nat \<Rightarrow> bool" where
  "ram_image_fits a c provided_format texture_size \<longleftrightarrow>
     arr_size a * itemsize (arr_dtype a)
       = component_width c * length provided_format * (texture_size * texture_size)"

section \<open>stimulus_classes.py: \<open>FullFieldDrift\<close>\<close>

text \<open>
  Lines 75-78 and 189-192: \<open>self.texture_component_type\<close> is assigned for the two
  supported element types and left unassigned for every other one.
\<close>

definition select_component_type :: "dtype \<Rightarrow> component_type option" where
  "select_component_type d =
     (if d = np_uint8 then Some T_unsigned_byte
      else if d = np_uint16 then Some T_unsigned_short
      else None)"

text \<open>
  Lines 81-92 and 195-206. The arguments of \<open>setup2dTexture\<close> are evaluated before the
  call, so reading the unassigned attribute raises \<open>AttributeError\<close>; then
  \<open>setRamImageAs\<close> takes the array or fails.
\<close>

definition setup_texture ::
  "texture_array \<Rightarrow> component_type option \<Rightarrow> nat \<Rightarrow> nat \<Rightarrow> error + Texture" where
  "setup_texture a ct ndims texture_size =
     (if ndims = 2 then
        (case ct of
           None \<Rightarrow> Inl (AttributeError ''texture_component_type'')
         | Some c \<Rightarrow>
             if ram_image_fits a c ''L'' texture_size then
               Inr \<lparr> tex_name = ''stimulus'', tex_setup = Some (c, F_luminance, ''L'', a) \<rparr>
             else Inl AssertionError)
      else if ndims = 3 then
        (case ct of
           None \<Rightarrow> Inl (AttributeError ''texture_component_type'')
         | Some c \<Rightarrow>
             if ram_image_fits a c ''RGB'' texture_size then
               Inr \<lparr> tex_name = ''stimulus'', tex_setup = Some (c, F_rgb8, ''RGB'', a) \<rparr>
             else Inl AssertionError)
      else Inl (ValueError ''Texture needs to be 2d or 3d''))"

record FullFieldDrift =
  ffd_texture_dtype :: dtype
  ffd_ndims :: nat
  ffd_angle :: real
  ffd_velocity :: real
  ffd_window_size :: nat
  ffd_title :: string
  ffd_texture :: Texture
  ffd_card1_R :: real
  ffd_task_added :: bool

text \<open>\<open>FullFieldDrift.__init__(texture_array, angle, velocity, window_size, texture_size)\<close>.\<close>

definition FullFieldDrift_init ::
  "texture_array \<Rightarrow> real \<Rightarrow> real \<Rightarrow> nat \<Rightarrow> nat \<Rightarrow> error + FullFieldDrift" where
  "FullFieldDrift_init a ang vel window_size texture_size =
     (case flat0_type a of
        Inl e \<Rightarrow> Inl e
      | Inr texture_dtype \<Rightarrow>
          (case setup_texture a (select_component_type texture_dtype) (ndim a) texture_size of
             Inl e \<Rightarrow> Inl e
           | Inr tex \<Rightarrow>
               Inr \<lparr> ffd_texture_dtype = texture_dtype, ffd_ndims = ndim a,
                     ffd_angle = ang, ffd_velocity = vel, ffd_window_size = window_size,
                     ffd_title = ''FullFieldDrift'', ffd_texture = tex,
                     ffd_card1_R = ang, ffd_task_added = (vel \<noteq> 0) \<rparr>))"

section \<open>stimulus_classes.py: \<open>BinocularDrift\<close>\<close>

text \<open>
  The coordinate conversions multiply a Python float by \<open>0.5\<close> and by \<open>2\<close>. Whether one
  undoes the other depends on rounding at the ends of the range, so here the float is
  written out: an IEEE binary64 value is \<open>\<plusminus> m \<sqdot> 2\<^sup>e\<close> with \<open>m < 2\<^sup>5\<^sup>3\<close> and
  \<open>-1074 \<le> e \<le> 971\<close>, normalised (\<open>2\<^sup>5\<^sup>2 \<le> m\<close>) unless \<open>e = -1074\<close>, or an infinity, or
  NaN. The sign is \<open>True\<close> for a negative value.
\<close>

datatype pyfloat = Finite bool nat int | Infinity bool | NaN

definition is_binary64 :: "pyfloat \<Rightarrow> bool" where
  "is_binary64 v =
     (case v of
        Finite sg m e \<Rightarrow> m < 2 ^ 53 \<and> - 1074 \<le> e \<and> e \<le> 971 \<and> (e = - 1074 \<or> 2 ^ 52 \<le> m)
      | _ \<Rightarrow> True)"

text \<open>\<open>m / 2\<close> rounded to the nearest integer, a tie going to the even one.\<close>

definition half_even :: "nat \<Rightarrow> nat" where
  "half_even m =
     (if even m then m div 2
      else if even (m div 2) then m div 2
      else m div 2 + 1)"

text \<open>
  \<open>0.5 * v\<close>: the exponent drops by one; at the smallest exponent the mantissa is halved
  and rounded.
\<close>

definition float_half :: "pyfloat \<Rightarrow> pyfloat" where
  "float_half v =
     (case v of
        Finite sg m e \<Rightarrow>
          if - 1074 < e then Finite sg m (e - 1) else Finite sg (half_even m) e
      | Infinity sg \<Rightarrow> Infinity sg
      | NaN \<Rightarrow> NaN)"

text \<open>
  \<open>2 * v\<close>: a subnormal mantissa doubles in place, otherwise the exponent rises by one,
  and past the largest exponent the product is an infinity.
\<close>

definition float_double :: "pyfloat \<Rightarrow> pyfloat" where
  "float_double v =
     (case v of
        Finite sg m e \<Rightarrow>
          if m < 2 ^ 52 then Finite sg (2 * m) e
          else if e < 971 then Finite sg m (e + 1)
          else Infinity sg
      | Infinity sg \<Rightarrow> Infinity sg
      | NaN \<Rightarrow> NaN)"

text \<open>The comparison \<open>==\<close>: the two zeros are equal, NaN equals nothing.\<close>

fun float_eq :: "pyfloat \<Rightarrow> pyfloat \<Rightarrow> bool" where
  "float_eq (Finite sg m e) (Finite sg' m' e') =
     ((m = 0 \<and> m' = 0) \<or> (sg = sg' \<and> m = m' \<and> e = e'))"
| "float_eq (Infinity sg) (Infinity sg') = (sg = sg')"
| "float_eq _ _ = False"

definition ndc2uv :: "pyfloat \<Rightarrow> pyfloat" where
  "ndc2uv val = float_half val"

definition uv2ndc :: "pyfloat \<Rightarrow> pyfloat" where
  "uv2ndc val = float_double val"

text \<open>
  A slice bound of a sequence of length \<open>n\<close>: a negative bound counts from the end, and
  the result is clipped to \<open>0 \<dots> n\<close>.
\<close>

definition slice_bound :: "nat \<Rightarrow> int \<Rightarrow> nat" where
  "slice_bound n i = (if i < 0 then nat (max 0 (int n + i)) else min n (nat i))"

text \<open>\<open>row[start:] = v\<close> and \<open>row[:stop] = v\<close>.\<close>

definition assign_from :: "'a list \<Rightarrow> int \<Rightarrow> 'a \<Rightarrow> 'a list" where
  "assign_from row start v =
     (let k = slice_bound (length row) start in take k row @ replicate (length row - k) v)"

definition assign_upto :: "'a list \<Rightarrow> int \<Rightarrow> 'a \<Rightarrow> 'a list" where
  "assign_upto row stop v =
     (let k = slice_bound (length row) stop in replicate k v @ drop k row)"

text \<open>\<open>255*np.ones((texture_size, texture_size), dtype = np.uint8)\<close>, a list of rows.\<close>

definition ones255 :: "nat \<Rightarrow> 8 word list list" where
  "ones255 texture_size = replicate texture_size (replicate texture_size 255)"

text \<open>Lines 180-183; \<open>[:, a:] = 0\<close> assigns in every row.\<close>

definition left_mask_array :: "nat \<Rightarrow> int \<Rightarrow> 8 word list list" where
  "left_mask_array texture_size band_radius =
     map (\<lambda>row. assign_from row (int texture_size div 2 - band_radius) 0) (ones255 texture_size)"

definition right_mask_array :: "nat \<Rightarrow> int \<Rightarrow> 8 word list list" where
  "right_mask_array texture_size band_radius =
     map (\<lambda>row. assign_upto row (int texture_size div 2 + band_radius) 0) (ones255 texture_size)"

datatype moving = Move_both | Move_left | Move_right | Move_none

text \<open>Lines 266-274: which update task is added.\<close>

definition select_task :: "real \<Rightarrow> real \<Rightarrow> moving" where
  "select_task left_velocity right_velocity =
     (if left_velocity \<noteq> 0 \<and> right_velocity \<noteq> 0 then Move_both
      else if left_velocity \<noteq> 0 \<and> right_velocity = 0 then Move_left
      else if left_velocity = 0 \<and> right_velocity \<noteq> 0 then Move_right
      else Move_none)"

record BinocularDrift =
  mask_position_ndc :: "pyfloat \<times> pyfloat"
  mask_position_uv :: "pyfloat \<times> pyfloat"
  bd_texture_dtype :: dtype
  bd_ndims :: nat
  left_texture_angle :: real
  right_texture_angle :: real
  left_velocity :: real
  right_velocity :: real
  mask_angle :: real
  bd_window_size :: nat
  bd_title :: string
  left_mask :: "8 word list list"
  right_mask :: "8 word list list"
  bd_texture :: Texture
  bd_task :: moving

text \<open>
  \<open>BinocularDrift.__init__(texture_array, stim_angles, mask_angle, position, velocities,
  band_radius, window_size, texture_size)\<close>. The masks are built before the texture is
  set up; each has \<open>texture_size\<^sup>2\<close> bytes, the size of the byte texture it is loaded
  into, so \<open>setRamImage\<close> takes it. The transforms of the cards are the engine's and are
  left out.
\<close>

definition BinocularDrift_init ::
  "texture_array \<Rightarrow> real \<times> real \<Rightarrow> real \<Rightarrow> pyfloat \<times> pyfloat \<Rightarrow> real \<times> real \<Rightarrow> int \<Rightarrow> nat
     \<Rightarrow> nat \<Rightarrow> error + BinocularDrift" where
  "BinocularDrift_init a stim_angles m_angle position velocities band_radius window_size
       texture_size =
     (case flat0_type a of
        Inl e \<Rightarrow> Inl e
      | Inr texture_dtype \<Rightarrow>
          (case setup_texture a (select_component_type texture_dtype) (ndim a) texture_size of
             Inl e \<Rightarrow> Inl e
           | Inr tex \<Rightarrow>
               Inr \<lparr> mask_position_ndc = position,
                     mask_position_uv = (ndc2uv (fst position), ndc2uv (snd position)),
                     bd_texture_dtype = texture_dtype, bd_ndims = ndim a,
                     left_texture_angle = fst stim_angles,
                     right_texture_angle = snd stim_angles,
                     left_velocity = fst velocities, right_velocity = snd velocities,
                     mask_angle = m_angle, bd_window_size = window_size,
                     bd_title = ''BinocularDrift'',
                     left_mask = left_mask_array texture_size band_radius,
                     right_mask = right_mask_array texture_size band_radius,
                     bd_texture = tex,
                     bd_task = select_task (fst velocities) (snd velocities) \<rparr>))"

section \<open>stimulus_classes.py: \<open>FullFieldDriftExperiment\<close>\<close>

text \<open>One entry of \<open>stim_params\<close>; \<open>kwargs\<close> is whatever the texture function takes.\<close>

record 'k stim_param =
  angle :: real
  velocity :: real
  kwargs :: 'k

text \<open>
  The methods read three names that are not attributes: \<open>event_change_times\<close> in
  \<open>event_change_times[-1]\<close>, \<open>texture_function\<close> and \<open>texture_size\<close>. They are globals of
  the script that builds the experiment, as test case 5 of the module defines them; the
  record is the script's globals. (In a script that does not define them the methods stop
  with \<open>NameError\<close> at the first of these names, before they change anything.)
\<close>

record 'k script_globals =
  global_event_change_times :: "real list"
  texture_function :: "'k \<Rightarrow> texture_array"
  global_texture_size :: nat

record 'k FullFieldDriftExperiment =
  events :: "int list"
  self_event_change_times :: "real list"
  self_event_durations :: "real list"
  current_event_num :: int
  num_events :: nat
  stim_params :: "'k stim_param list"
  self_texture_size :: nat
  self_window_size :: nat
  ffde_title :: string
  ffde_card1_color :: color
  ffde_card1_textured :: bool
  ffde_card1_R :: real
  ffde_card1_texpos :: real
  self_texture :: "Texture option"
  has_texture_stage :: bool

text \<open>
  \<open>FullFieldDriftExperiment.__init__(texture_function, stim_params, experiment_structure,
  window_size, texture_size)\<close>, with the three entries of \<open>experiment_structure\<close> as
  arguments. The constructor does not keep its \<open>texture_function\<close>: the methods use the
  global of that name.
\<close>

definition FullFieldDriftExperiment_init ::
  "'k stim_param list \<Rightarrow> int list \<Rightarrow> real list \<Rightarrow> real list \<Rightarrow> nat \<Rightarrow> nat
     \<Rightarrow> 'k FullFieldDriftExperiment" where
  "FullFieldDriftExperiment_init sp event_values change_times durations window_size texture_size =
     \<lparr> events = event_values, self_event_change_times = change_times,
       self_event_durations = durations, current_event_num = 0,
       num_events = length event_values, stim_params = sp,
       self_texture_size = texture_size, self_window_size = window_size,
       ffde_title = ''FFDE Initializing'', ffde_card1_color = bgcolor,
       ffde_card1_textured = False, ffde_card1_R = 0, ffde_card1_texpos = 0,
       self_texture = None, has_texture_stage = False \<rparr>"

text \<open>The properties \<open>current_event_ind\<close> and \<open>current_stim_params\<close>.\<close>

definition current_event_ind :: "'k FullFieldDriftExperiment \<Rightarrow> error + int" where
  "current_event_ind s = py_index (events s) (current_event_num s)"

definition current_stim_params :: "'k FullFieldDriftExperiment \<Rightarrow> error + 'k stim_param" where
  "current_stim_params s =
     (case current_event_ind s of
        Inl e \<Rightarrow> Inl e
      | Inr ev \<Rightarrow> py_index (stim_params s) ev)"

text \<open>Decimal digits, for \<open>"FFDE {0}: {1}".format\<close>.\<close>

fun show_nat :: "nat \<Rightarrow> string" where
  "show_nat n =
     (if n < 10 then [''0123456789'' ! n]
      else show_nat (n div 10) @ [''0123456789'' ! (n mod 10)])"

definition show_int :: "int \<Rightarrow> string" where
  "show_int i = (if i < 0 then ''-'' @ show_nat (nat (- i)) else show_nat (nat i))"

text \<open>Lines 396-398: a baseline event. \<open>self.texture_stage\<close> exists only once a stimulus
  has been shown.\<close>

definition show_baseline ::
  "'k FullFieldDriftExperiment \<Rightarrow> 'k FullFieldDriftExperiment \<times> error option" where
  "show_baseline s =
     (let s1 = s\<lparr> ffde_card1_color := bgcolor \<rparr> in
      if \<not> has_texture_stage s1 then (s1, Some (AttributeError ''texture_stage''))
      else (s1\<lparr> ffde_card1_textured := False,
                 ffde_title := ''FFDE '' @ show_int (current_event_num s1) @ '': baseline'' \<rparr>,
            None))"

text \<open>Lines 410-415: the component type, with its \<open>else\<close> branch.\<close>

definition component_type_of :: "dtype \<Rightarrow> error + component_type" where
  "component_type_of d =
     (if d = np_uint8 then Inr T_unsigned_byte
      else if d = np_uint16 then Inr T_unsigned_short
      else Inl (ValueError ''Texture needs to be uint8 or uint16. Let me know if you have others.''))"

text \<open>Lines 418-425: the texture format and the format of the image handed over.\<close>

definition format_of :: "nat \<Rightarrow> error + texture_format \<times> string" where
  "format_of texture_ndims =
     (if texture_ndims = 2 then Inr (F_luminance, ''L'')
      else if texture_ndims = 3 then Inr (F_rgb8, ''RGB'')
      else Inl (ValueError ''Texture needs to be 2d or 3d (rgb). Let us know if you have others.''))"

text \<open>
  Lines 401-436: a stimulus event with value \<open>ev\<close>. The texture is set up with the
  global \<open>texture_size\<close>, and \<open>setRamImageAs\<close> takes the array or fails.
\<close>

definition show_stimulus ::
  "'k script_globals \<Rightarrow> 'k FullFieldDriftExperiment \<Rightarrow> int
     \<Rightarrow> 'k FullFieldDriftExperiment \<times> error option" where
  "show_stimulus g s ev =
     (case py_index (stim_params s) ev of
        Inl e \<Rightarrow> (s, Some e)
      | Inr sp \<Rightarrow>
          (let texture_arr = texture_function g (kwargs sp) in
           case flat0_type texture_arr of
             Inl e \<Rightarrow> (s, Some e)
           | Inr texture_dtype \<Rightarrow>
               (let s1 = s\<lparr> self_texture := Some \<lparr> tex_name = ''stim_texture'', tex_setup = None \<rparr> \<rparr> in
                case component_type_of texture_dtype of
                  Inl e \<Rightarrow> (s1, Some e)
                | Inr texture_component_type \<Rightarrow>
                    (case format_of (ndim texture_arr) of
                       Inl e \<Rightarrow> (s1, Some e)
                     | Inr (texture_fmt, provided_format) \<Rightarrow>
                         if \<not> ram_image_fits texture_arr texture_component_type provided_format
                                  (global_texture_size g)
                         then (s1, Some AssertionError)
                         else
                         (s1\<lparr> self_texture :=
                                 Some \<lparr> tex_name = ''stim_texture'',
                                        tex_setup = Some (texture_component_type, texture_fmt,
                                                          provided_format, texture_arr) \<rparr>,
                               has_texture_stage := True,
                               ffde_card1_color := (1, 1, 1, 1),
                               ffde_card1_textured := True,
                               ffde_card1_R := angle sp,
                               ffde_title := ''FFDE '' @ show_int (current_event_num s1)
                                               @ '': '' @ show_int ev \<rparr>,
                          None)))))"

text \<open>Lines 394-436, the body of \<open>if task.time >= self.event_change_times[...]\<close>.\<close>

definition next_event ::
  "'k script_globals \<Rightarrow> 'k FullFieldDriftExperiment
     \<Rightarrow> 'k FullFieldDriftExperiment \<times> error option" where
  "next_event g s =
     (let s1 = s\<lparr> current_event_num := current_event_num s + 1 \<rparr> in
      case current_event_ind s1 of
        Inl e \<Rightarrow> (s1, Some e)
      | Inr ev \<Rightarrow> if ev = - 1 then show_baseline s1 else show_stimulus g s1 ev)"

text \<open>\<open>FullFieldDriftExperiment.set_texture_task(task)\<close>, with \<open>t\<close> for \<open>task.time\<close>.\<close>

definition set_texture_task ::
  "'k script_globals \<Rightarrow> 'k FullFieldDriftExperiment \<Rightarrow> real
     \<Rightarrow> 'k FullFieldDriftExperiment \<times> (error + sentinel)" where
  "set_texture_task g s t =
     (case py_index (global_event_change_times g) (- 1) of
        Inl e \<Rightarrow> (s, Inl e)
      | Inr last_change \<Rightarrow>
          if t \<le> last_change then
            (case py_index (self_event_change_times s) (current_event_num s) of
               Inl e \<Rightarrow> (s, Inl e)
             | Inr change_time \<Rightarrow>
                 (case (if t \<ge> change_time then next_event g s else (s, None)) of
                    (s1, Some e) \<Rightarrow> (s1, Inl e)
                  | (s1, None) \<Rightarrow> (s1, Inr Cont)))
          else (s, Inr Done))"

text \<open>\<open>FullFieldDriftExperiment.move_texture_task(task)\<close>.\<close>

definition move_texture_task ::
  "'k script_globals \<Rightarrow> 'k FullFieldDriftExperiment \<Rightarrow> real
     \<Rightarrow> 'k FullFieldDriftExperiment \<times> (error + sentinel)" where
  "move_texture_task g s t =
     (case py_index (global_event_change_times g) (- 1) of
        Inl e \<Rightarrow> (s, Inl e)
      | Inr last_change \<Rightarrow>
          if t \<le> last_change then
            (case current_event_ind s of
               Inl e \<Rightarrow> (s, Inl e)
             | Inr ev \<Rightarrow>
                 if ev \<noteq> - 1 then
                   (case current_stim_params s of
                      Inl e \<Rightarrow> (s, Inl e)
                    | Inr sp \<Rightarrow>
                        if \<not> has_texture_stage s then (s, Inl (AttributeError ''texture_stage''))
                        else (s\<lparr> ffde_card1_texpos := - t * velocity sp \<rparr>, Inr Cont))
                 else (s, Inr Cont))
          else (s\<lparr> ffde_title := ''FFDE Done'' \<rparr>, Inr Done))"

text \<open>
  Both tasks are added in \<open>__init__\<close>, \<open>move_texture\<close> first, and each is called once per
  frame until it returns \<open>Task.done\<close>; an exception ends the application. The log holds
  one entry per invocation of \<open>set_texture_task\<close>: the state before, the elapsed time, the
  state after.
\<close>

fun ffde_run ::
  "'k script_globals \<Rightarrow> 'k FullFieldDriftExperiment \<Rightarrow> bool \<Rightarrow> bool \<Rightarrow> real list
     \<Rightarrow> ('k FullFieldDriftExperiment \<times> real \<times> 'k FullFieldDriftExperiment) list" where
  "ffde_run g s move_alive set_alive [] = []"
| "ffde_run g s move_alive set_alive (t # ts) =
     (case (if move_alive then move_texture_task g s t else (s, Inr Done)) of
        (s1, Inl e) \<Rightarrow> []
      | (s1, Inr r1) \<Rightarrow>
          if set_alive then
            (case set_texture_task g s1 t of
               (s2, Inl e) \<Rightarrow> [(s1, t, s2)]
             | (s2, Inr r2) \<Rightarrow>
                 (s1, t, s2) # ffde_run g s2 (move_alive \<and> r1 = Cont) (r2 = Cont) ts)
          else ffde_run g s1 (move_alive \<and> r1 = Cont) False ts)"

section \<open>stimulus_classes.py: the experiment of test case 5\<close>

text \<open>
  Test case 5 of the module builds the lists below and then calls the constructor with
  \<open>save_path = None\<close>, a keyword that \<open>__init__\<close> does not have, so the call as written
  stops with \<open>TypeError\<close>. The experiment defined here is the one its data describe: the
  same arguments without that keyword.
\<close>

text \<open>
  Modelled from the spec: \<open>textures.sin_texture\<close>, the texture function of test case 5,
  belongs to a module that is not among the sources. The spec calls the texture functions
  pure functions of size and frequency that produce byte arrays, so it is taken to
  return a two-dimensional \<open>uint8\<close> array of \<open>texture_size\<close> rows and columns. The
  keyword arguments are the pair \<open>(spatial_frequency, texture_size)\<close>.
\<close>

definition sin_texture :: "nat \<times> nat \<Rightarrow> texture_array" where
  "sin_texture kw = \<lparr> arr_dtype = np_uint8, arr_shape = [snd kw, snd kw] \<rparr>"

definition script_stim_params :: "(nat \<times> nat) stim_param list" where
  "script_stim_params =
     [\<lparr> angle = - 20, velocity = 0.10, kwargs = (15, 512) \<rparr>,
      \<lparr> angle = 20, velocity = - 0.08, kwargs = (10, 512) \<rparr>,
      \<lparr> angle = 90, velocity = 0.05, kwargs = (5, 512) \<rparr>]"

definition stimulus_values :: "int list" where
  "stimulus_values = [2, 1, 0, 1]"

definition script_stim_durations :: "real list" where
  "script_stim_durations = [4, 4, 2, 3]"

definition baseline_durations :: "real list" where
  "baseline_durations = [2] @ [4, 2, 3, 2]"

definition all_events :: "int list" where
  "all_events =
     flatten_pairs (zip_longest (replicate (length baseline_durations) (- 1)) stimulus_values)"

definition script_event_durations :: "real list" where
  "script_event_durations = flatten_pairs (zip_longest baseline_durations script_stim_durations)"

definition script_event_change_times :: "real list" where
  "script_event_change_times = cumsum script_event_durations"

definition script :: "(nat \<times> nat) script_globals" where
  "script = \<lparr> global_event_change_times = script_event_change_times,
              texture_function = sin_texture, global_texture_size = 512 \<rparr>"

definition exp_app :: "(nat \<times> nat) FullFieldDriftExperiment" where
  "exp_app =
     FullFieldDriftExperiment_init script_stim_params all_events script_event_change_times
       script_event_durations 512 512"

text \<open>
  The docstring of \<open>current_event_ind\<close> gives \<open>[-1 2 0 1 -1 1 0 2]\<close> as typical
  events: stimuli may follow one another without a baseline between them. An experiment
  with these events, each lasting one second, and the stimuli of test case 5.
\<close>

definition typical_events :: "int list" where
  "typical_events = [- 1, 2, 0, 1, - 1, 1, 0, 2]"

definition typical_event_durations :: "real list" where
  "typical_event_durations = replicate 8 1"

definition typical_script :: "(nat \<times> nat) script_globals" where
  "typical_script = \<lparr> global_event_change_times = cumsum typical_event_durations,
                      texture_function = sin_texture, global_texture_size = 512 \<rparr>"

definition typical_app :: "(nat \<times> nat) FullFieldDriftExperiment" where
  "typical_app =
     FullFieldDriftExperiment_init script_stim_params typical_events
       (cumsum typical_event_durations) typical_event_durations 512 512"

text \<open>\<open>app = MyApp()\<close>, with the parameters of the module.\<close>

definition app :: MyApp where
  "app = projr (MyApp_init module_params)"

section \<open>Inputs and paths used in the statements\<close>

text \<open>
  The array that an invocation of \<open>set_texture_task\<close> hands to the texture code, when it
  gets as far as line 402: the time lies within the experiment, the next change time is
  reached, and the event after the current one is a stimulus whose parameters exist.
\<close>

definition built_texture ::
  "'k script_globals \<Rightarrow> 'k FullFieldDriftExperiment \<Rightarrow> real \<Rightarrow> texture_array option" where
  "built_texture g s t =
     (case py_index (global_event_change_times g) (- 1) of
        Inl e \<Rightarrow> None
      | Inr last_change \<Rightarrow>
          if t \<le> last_change then
            (case py_index (self_event_change_times s) (current_event_num s) of
               Inl e \<Rightarrow> None
             | Inr change_time \<Rightarrow>
                 if t \<ge> change_time then
                   (case py_index (events s) (current_event_num s + 1) of
                      Inl e \<Rightarrow> None
                    | Inr ev \<Rightarrow>
                        if ev = - 1 then None
                        else (case py_index (stim_params s) ev of
                                Inl e \<Rightarrow> None
                              | Inr sp \<Rightarrow> Some (texture_function g (kwargs sp))))
                 else None)
          else None)"

text \<open>Three arrays the texture code can be given: floats, one dimension, no element.\<close>

definition float_texture :: texture_array where
  "float_texture = \<lparr> arr_dtype = np_float64, arr_shape = [512, 512] \<rparr>"

definition line_texture :: texture_array where
  "line_texture = \<lparr> arr_dtype = np_uint8, arr_shape = [512] \<rparr>"

definition empty_texture :: texture_array where
  "empty_texture = \<lparr> arr_dtype = np_uint8, arr_shape = [0] \<rparr>"

text \<open>The globals of test case 5 with a texture function that returns floats.\<close>

definition float_script :: "(nat \<times> nat) script_globals" where
  "float_script = script\<lparr> texture_function := (\<lambda>kw. float_texture) \<rparr>"

text \<open>
  What holds of \<open>MyApp\<close> before every frame of a run: the index lies within the change
  times or one past them, a baseline shows at the even indices, and \<open>stim_num\<close> counts
  the stimuli begun so far.
\<close>

definition MyApp_inv :: "params \<Rightarrow> MyApp \<Rightarrow> bool" where
  "MyApp_inv p s \<longleftrightarrow>
     0 \<le> event_change_num s \<and> event_change_num s \<le> int (num_event_changes p)
   \<and> stim_num s = (event_change_num s + 1) div 2 - 1
   \<and> baseline_stim s = even (event_change_num s)"

text \<open>
  The conditions under which lines 403-430 take an array: it has a first element, its
  element type and number of dimensions are supported, and the engine accepts its bytes
  for a texture of the given size.
\<close>

definition texture_loads :: "texture_array \<Rightarrow> nat \<Rightarrow> bool" where
  "texture_loads a texture_size \<longleftrightarrow>
     arr_size a \<noteq> 0
   \<and> (arr_dtype a = np_uint8 \<or> arr_dtype a = np_uint16)
   \<and> (ndim a = 2 \<or> ndim a = 3)
   \<and> ram_image_fits a
        (if arr_dtype a = np_uint8 then T_unsigned_byte else T_unsigned_short)
        (if ndim a = 2 then ''L'' else ''RGB'') texture_size"

text \<open>
  Test case 4 of the module, \<open>BinocularDrift\<close> with the texture of
  \<open>textures.sin_texture(512, 25)\<close>, angles \<open>(-45, 90)\<close>, mask angle 25, position
  \<open>(0.1, -0.4)\<close>, velocities \<open>(.03, .01)\<close>, band radius 2, window and texture size 512.
\<close>

definition test_case_4 :: "error + BinocularDrift" where
  "test_case_4 =
     BinocularDrift_init (sin_texture (25, 512)) (- 45, 90) 25
       (Finite False 7205759403792794 (- 56), Finite True 7205759403792794 (- 54))
       (0.03, 0.01) 2 512 512"

section \<open>Lengths of the event structure\<close>

lemma length_cumsum_from: "length (cumsum_from acc xs) = length xs"
  by (induction xs arbitrary: acc) simp_all

lemma length_flatten_zip_longest:
  "length (flatten_pairs (zip_longest xs ys)) = length xs + length ys"
  by (induction xs ys rule: zip_longest.induct) (simp_all add: flatten_pairs_def)

lemma length_event_durations:
  "length (event_durations p) = length (inter_stimulus_times p) + length (stim_durations p)"
  by (simp add: event_durations_def length_flatten_zip_longest)

lemma length_event_change_times:
  "length (event_change_times p) = length (event_durations p) - 1"
  by (simp add: event_change_times_def cumsum_def length_cumsum_from)

lemma module_event_durations:
  "event_durations module_params = [4, 4, 3, 4, 3, 6, 2.5, 5, 5]"
  by (simp add: event_durations_def module_params_def flatten_pairs_def)

lemma module_event_change_times:
  "event_change_times module_params = [4, 8, 11, 15, 18, 24, 26.5, 31.5]"
  by (simp add: event_change_times_def module_event_durations cumsum_def)

text \<open>
  C10. With \<open>n\<close> stimulus durations and \<open>n + 1\<close> inter-stimulus times the interleaved list of
  event durations has \<open>2n + 1\<close> entries, the cumulative sums without the last one are \<open>2n\<close>
  event-change times, and both assertions of the module hold. (The claim asks for
  \<open>n \<ge> 1\<close>; the lengths come out the same for \<open>n = 0\<close>.)
\<close>

theorem event_structure_lengths:
  assumes "length (stim_durations p) = n"
    and "length (inter_stimulus_times p) = n + 1"
  shows "length (event_durations p) = 2 * n + 1
       \<and> length (event_change_times p) = 2 * n
       \<and> quick_tests p"
  using assms
  by (simp add: length_event_change_times length_event_durations quick_tests_def
      num_stim_def num_event_changes_def)

theorem event_structure_lengths_witness:
  "length (stim_durations module_params) = 4
 \<and> length (inter_stimulus_times module_params) = 4 + 1
 \<and> length (event_durations module_params) = 2 * 4 + 1
 \<and> length (event_change_times module_params) = 2 * 4
 \<and> quick_tests module_params"
proof -
  have a: "length (stim_durations module_params) = 4"
    by (simp add: module_params_def)
  have b: "length (inter_stimulus_times module_params) = 4 + 1"
    by (simp add: module_params_def)
  show ?thesis
    using a b event_structure_lengths [OF a b] by simp
qed

lemma all_events_eq: "all_events = [-1, 2, -1, 1, -1, 0, -1, 1, -1]"
  by (simp add: all_events_def baseline_durations_def stimulus_values_def flatten_pairs_def)

lemma script_times_eq: "script_event_change_times = [2, 6, 10, 14, 16, 18, 21, 24, 26]"
  by (simp add: script_event_change_times_def script_event_durations_def baseline_durations_def
      script_stim_durations_def flatten_pairs_def cumsum_def)

section \<open>The event-timeline steppers\<close>

subsection \<open>One invocation of \<open>moveTextureTask\<close>\<close>

lemma stimulus_on_fields:
  "stimulus_on p s = (s1, r) \<Longrightarrow>
     event_change_num s1 = event_change_num s \<and> baseline_stim s1 = baseline_stim s
   \<and> windowProps_title s1 = windowProps_title s"
  by (auto simp: stimulus_on_def Let_def split: sum.splits)

lemma change_event_num:
  "change_event p s = (s1, r) \<Longrightarrow>
     event_change_num s1 = event_change_num s \<or>
     (event_change_num s1 = event_change_num s + 1 \<and> baseline_stim s1 = (\<not> baseline_stim s))"
  by (auto simp: change_event_def stimulus_off_def split: if_splits prod.splits option.splits
      dest: stimulus_on_fields)

lemma change_event_advances:
  assumes "event_change_num s < int (num_event_changes p)"
    and "baseline_stim s \<longrightarrow> (\<exists>a. py_index (angles p) (stim_num s + 1) = Inr a)"
  shows "\<exists>s1. change_event p s = (s1, None)
             \<and> event_change_num s1 = event_change_num s + 1
             \<and> baseline_stim s1 = (\<not> baseline_stim s)"
  using assms
  by (auto simp: change_event_def stimulus_off_def stimulus_on_def Let_def split: prod.splits option.splits)

lemma shift_texture_fields:
  "shift_texture p s t = (s1, r) \<Longrightarrow>
     event_change_num s1 = event_change_num s \<and> baseline_stim s1 = baseline_stim s
   \<and> windowProps_title s1 = windowProps_title s"
  by (auto simp: shift_texture_def split: if_splits sum.splits)

lemma continue_or_finish_fields:
  "continue_or_finish p s t = (s1, r) \<Longrightarrow>
     event_change_num s1 = event_change_num s \<and> baseline_stim s1 = baseline_stim s"
  by (auto simp: continue_or_finish_def split: if_splits sum.splits)

lemma py_index_Inr_less: "py_index xs i = Inr x \<Longrightarrow> i < int (length xs)"
  by (auto simp: py_index_def Let_def split: if_splits)

text \<open>What follows the first block of \<open>moveTextureTask\<close> leaves index and state alone.\<close>

lemma moveTextureTask_tail_fields:
  "(case shift_texture p s1 t of (s2, Some e) \<Rightarrow> (s2, Inl e) | (s2, None) \<Rightarrow> continue_or_finish p s2 t) = (s3, r)
   \<Longrightarrow> event_change_num s3 = event_change_num s1 \<and> baseline_stim s3 = baseline_stim s1"
proof -
  assume a: "(case shift_texture p s1 t of (s2, Some e) \<Rightarrow> (s2, Inl e) | (s2, None) \<Rightarrow> continue_or_finish p s2 t) = (s3, r)"
  obtain s2 r2 where sh: "shift_texture p s1 t = (s2, r2)" by fastforce
  note f = shift_texture_fields [OF sh]
  show ?thesis
  proof (cases r2)
    case None
    with a sh have "continue_or_finish p s2 t = (s3, r)" by simp
    from continue_or_finish_fields [OF this] f show ?thesis by simp
  next
    case (Some e)
    with a sh have "s3 = s2" by simp
    with f show ?thesis by simp
  qed
qed

lemma moveTextureTask_below:
  assumes "py_index (event_change_times p) (event_change_num s) = Inr tc" and "t < tc"
  shows "event_change_num (fst (moveTextureTask p s t)) = event_change_num s
       \<and> baseline_stim (fst (moveTextureTask p s t)) = baseline_stim s"
proof -
  obtain s3 r where r: "(case shift_texture p s t of (s2, Some e) \<Rightarrow> (s2, Inl e) | (s2, None) \<Rightarrow> continue_or_finish p s2 t) = (s3, r)"
    by fastforce
  from assms have "moveTextureTask p s t = (s3, r)"
    by (simp add: moveTextureTask_def r)
  with moveTextureTask_tail_fields [OF r] show ?thesis by simp
qed

lemma moveTextureTask_reached:
  assumes "py_index (event_change_times p) (event_change_num s) = Inr tc" and "tc \<le> t"
    and "baseline_stim s \<longrightarrow> (\<exists>a. py_index (angles p) (stim_num s + 1) = Inr a)"
  shows "event_change_num (fst (moveTextureTask p s t)) = event_change_num s + 1
       \<and> baseline_stim (fst (moveTextureTask p s t)) = (\<not> baseline_stim s)"
proof -
  from assms(1) have "event_change_num s < int (num_event_changes p)"
    by (simp add: num_event_changes_def py_index_Inr_less)
  from change_event_advances [OF this assms(3)]
  obtain s1 where s1: "change_event p s = (s1, None)"
    "event_change_num s1 = event_change_num s + 1" "baseline_stim s1 = (\<not> baseline_stim s)"
    by blast
  obtain s3 r where r: "(case shift_texture p s1 t of (s2, Some e) \<Rightarrow> (s2, Inl e) | (s2, None) \<Rightarrow> continue_or_finish p s2 t) = (s3, r)"
    by fastforce
  from assms s1 have "moveTextureTask p s t = (s3, r)"
    by (simp add: moveTextureTask_def r)
  with moveTextureTask_tail_fields [OF r] s1 show ?thesis by simp
qed

lemma moveTextureTask_step:
  "event_change_num (fst (moveTextureTask p s t)) = event_change_num s
   \<or> (event_change_num (fst (moveTextureTask p s t)) = event_change_num s + 1
       \<and> (\<exists>tc. py_index (event_change_times p) (event_change_num s) = Inr tc \<and> tc \<le> t))"
proof (cases "py_index (event_change_times p) (event_change_num s)")
  case (Inl e)
  then show ?thesis by (simp add: moveTextureTask_def)
next
  case (Inr tc)
  show ?thesis
  proof (cases "tc \<le> t")
    case False
    with moveTextureTask_below [OF Inr, of t] show ?thesis by simp
  next
    case True
    obtain s1 r1 where c: "change_event p s = (s1, r1)" by fastforce
    obtain s3 r where r: "(case shift_texture p s1 t of (s2, Some e) \<Rightarrow> (s2, Inl e) | (s2, None) \<Rightarrow> continue_or_finish p s2 t) = (s3, r)"
      by fastforce
    have "event_change_num (fst (moveTextureTask p s t)) = event_change_num s1"
      using Inr True c r moveTextureTask_tail_fields [OF r]
      by (cases r1) (simp_all add: moveTextureTask_def)
    with change_event_num [OF c] Inr True show ?thesis by auto
  qed
qed

subsection \<open>One invocation of the tasks of \<open>FullFieldDriftExperiment\<close>\<close>

lemma show_baseline_fields:
  "show_baseline s = (s1, r) \<Longrightarrow>
     current_event_num s1 = current_event_num s \<and> events s1 = events s
   \<and> self_event_change_times s1 = self_event_change_times s"
  by (auto simp: show_baseline_def Let_def split: if_splits)

lemma show_stimulus_fields:
  "show_stimulus g s ev = (s1, r) \<Longrightarrow>
     current_event_num s1 = current_event_num s \<and> events s1 = events s
   \<and> self_event_change_times s1 = self_event_change_times s"
  by (auto simp: show_stimulus_def Let_def split: sum.splits prod.splits if_splits)

lemma next_event_fields:
  assumes "next_event g s = (s1, r)"
  shows "current_event_num s1 = current_event_num s + 1 \<and> events s1 = events s
       \<and> self_event_change_times s1 = self_event_change_times s"
proof (cases "current_event_ind (s\<lparr>current_event_num := current_event_num s + 1\<rparr>)")
  case (Inl e)
  with assms show ?thesis by (auto simp: next_event_def Let_def)
next
  case (Inr ev)
  show ?thesis
  proof (cases "ev = - 1")
    case True
    with assms Inr have "show_baseline (s\<lparr>current_event_num := current_event_num s + 1\<rparr>) = (s1, r)"
      by (simp add: next_event_def Let_def)
    from show_baseline_fields [OF this] show ?thesis by simp
  next
    case False
    with assms Inr have "show_stimulus g (s\<lparr>current_event_num := current_event_num s + 1\<rparr>) ev = (s1, r)"
      by (simp add: next_event_def Let_def)
    from show_stimulus_fields [OF this] show ?thesis by simp
  qed
qed

lemma move_texture_task_fields:
  "move_texture_task g s t = (s1, r) \<Longrightarrow>
     current_event_num s1 = current_event_num s \<and> events s1 = events s
   \<and> self_event_change_times s1 = self_event_change_times s"
  by (auto simp: move_texture_task_def split: sum.splits if_splits)

lemma set_texture_task_unchanged:
  assumes "py_index (global_event_change_times g) (- 1) = Inr last_change"
    and "py_index (self_event_change_times s) (current_event_num s) = Inr tc"
    and "t < tc \<or> last_change < t"
  shows "fst (set_texture_task g s t) = s"
  using assms by (auto simp: set_texture_task_def)

lemma set_texture_task_reached:
  assumes "py_index (global_event_change_times g) (- 1) = Inr last_change"
    and "py_index (self_event_change_times s) (current_event_num s) = Inr tc"
    and "tc \<le> t" and "t \<le> last_change"
  shows "current_event_num (fst (set_texture_task g s t)) = current_event_num s + 1
       \<and> events (fst (set_texture_task g s t)) = events s"
proof -
  obtain s1 r where n: "next_event g s = (s1, r)" by fastforce
  from assms n have "fst (set_texture_task g s t) = s1"
    by (cases r) (simp_all add: set_texture_task_def)
  with next_event_fields [OF n] show ?thesis by simp
qed

lemma set_texture_task_step:
  "(fst (set_texture_task g s t) = s)
   \<or> (current_event_num (fst (set_texture_task g s t)) = current_event_num s + 1
       \<and> self_event_change_times (fst (set_texture_task g s t)) = self_event_change_times s
       \<and> events (fst (set_texture_task g s t)) = events s
       \<and> (\<exists>tc. py_index (self_event_change_times s) (current_event_num s) = Inr tc \<and> tc \<le> t))"
proof (cases "py_index (global_event_change_times g) (- 1)")
  case (Inl e)
  then show ?thesis by (simp add: set_texture_task_def)
next
  case last: (Inr last_change)
  show ?thesis
  proof (cases "py_index (self_event_change_times s) (current_event_num s)")
    case (Inl e)
    with last show ?thesis by (simp add: set_texture_task_def)
  next
    case (Inr tc)
    show ?thesis
    proof (cases "tc \<le> t \<and> t \<le> last_change")
      case False
      then have "t < tc \<or> last_change < t" by auto
      from set_texture_task_unchanged [OF last Inr this] show ?thesis by simp
    next
      case True
      obtain s1 r where n: "next_event g s = (s1, r)" by fastforce
      from last Inr True n have "fst (set_texture_task g s t) = s1"
        by (cases r) (simp_all add: set_texture_task_def)
      with next_event_fields [OF n] Inr True show ?thesis by simp
    qed
  qed
qed

subsection \<open>Sequences of invocations\<close>

lemma MyApp_run_bounds:
  "\<forall>(s0, t, s1) \<in> set (MyApp_run p s ts).
     event_change_num s \<le> event_change_num s0 \<and> event_change_num s0 \<le> event_change_num s1
   \<and> (event_change_num s0 < event_change_num s1 \<longrightarrow>
        event_change_num s1 = event_change_num s0 + 1
      \<and> (\<exists>tc. py_index (event_change_times p) (event_change_num s0) = Inr tc \<and> tc \<le> t))"
proof (induction ts arbitrary: s)
  case Nil
  show ?case by simp
next
  case (Cons t ts)
  obtain s' r where m: "moveTextureTask p s t = (s', r)" by fastforce
  from moveTextureTask_step [of p s t] m
  have st: "event_change_num s' = event_change_num s
     \<or> (event_change_num s' = event_change_num s + 1
         \<and> (\<exists>tc. py_index (event_change_times p) (event_change_num s) = Inr tc \<and> tc \<le> t))"
    by simp
  have hd: "event_change_num s \<le> event_change_num s'
      \<and> (event_change_num s < event_change_num s' \<longrightarrow>
            event_change_num s' = event_change_num s + 1
          \<and> (\<exists>tc. py_index (event_change_times p) (event_change_num s) = Inr tc \<and> tc \<le> t))"
    using st by auto
  show ?case
  proof (cases "r = Inr Cont")
    case True
    with m have run: "MyApp_run p s (t # ts) = (s, t, s') # MyApp_run p s' ts" by simp
    from Cons.IH [of s'] hd show ?thesis
      unfolding run by fastforce
  next
    case False
    with m have "MyApp_run p s (t # ts) = [(s, t, s')]"
      by (auto split: sum.splits sentinel.splits)
    with hd show ?thesis by simp
  qed
qed

lemma sorted_cons2: "(a::int) \<le> b \<Longrightarrow> sorted (b # xs) \<Longrightarrow> sorted (a # b # xs)"
  by auto

lemma MyApp_run_sorted:
  "sorted (map event_change_num (s # map (\<lambda>(s0, t, s1). s1) (MyApp_run p s ts)))"
proof (induction ts arbitrary: s)
  case Nil
  show ?case by simp
next
  case (Cons t ts)
  obtain s' r where m: "moveTextureTask p s t = (s', r)" by fastforce
  from moveTextureTask_step [of p s t] m
  have le: "event_change_num s \<le> event_change_num s'" by auto
  show ?case
  proof (cases "r = Inr Cont")
    case True
    with m have run: "MyApp_run p s (t # ts) = (s, t, s') # MyApp_run p s' ts" by simp
    have "sorted (event_change_num s' # map event_change_num (map (\<lambda>(s0, t, s1). s1) (MyApp_run p s' ts)))"
      using Cons.IH [of s'] by (simp only: list.map)
    from sorted_cons2 [OF le this] show ?thesis
      unfolding run by (simp only: list.map prod.case)
  next
    case False
    with m have "MyApp_run p s (t # ts) = [(s, t, s')]"
      by (auto split: sum.splits sentinel.splits)
    with le show ?thesis by simp
  qed
qed

lemma ffde_run_bounds:
  "\<forall>(s0, t, s1) \<in> set (ffde_run g s mv st ts).
     current_event_num s0 \<le> current_event_num s1
   \<and> (current_event_num s0 < current_event_num s1 \<longrightarrow>
        current_event_num s1 = current_event_num s0 + 1
      \<and> (\<exists>tc. py_index (self_event_change_times s) (current_event_num s0) = Inr tc \<and> tc \<le> t))"
proof (induction ts arbitrary: s mv st)
  case Nil
  show ?case by simp
next
  case (Cons t ts)
  obtain s1 r1 where mv: "(if mv then move_texture_task g s t else (s, Inr Done)) = (s1, r1)"
    by fastforce
  have f1: "self_event_change_times s1 = self_event_change_times s"
    using mv move_texture_task_fields [of g s t s1 r1] by (auto split: if_splits)
  show ?case
  proof (cases r1)
    case (Inl e)
    with mv show ?thesis by simp
  next
    case (Inr c1)
    show ?thesis
    proof (cases st)
      case False
      with mv Inr have "ffde_run g s mv st (t # ts) = ffde_run g s1 (mv \<and> c1 = Cont) False ts"
        by simp
      with Cons.IH [of s1 "mv \<and> c1 = Cont" False] f1 show ?thesis by simp
    next
      case True
      obtain s2 r2 where st2: "set_texture_task g s1 t = (s2, r2)" by fastforce
      from set_texture_task_step [of g s1 t] st2
      have step: "s2 = s1
        \<or> (current_event_num s2 = current_event_num s1 + 1
            \<and> self_event_change_times s2 = self_event_change_times s1
            \<and> (\<exists>tc. py_index (self_event_change_times s1) (current_event_num s1) = Inr tc \<and> tc \<le> t))"
        by auto
      have hd: "current_event_num s1 \<le> current_event_num s2
        \<and> (current_event_num s1 < current_event_num s2 \<longrightarrow>
              current_event_num s2 = current_event_num s1 + 1
            \<and> (\<exists>tc. py_index (self_event_change_times s) (current_event_num s1) = Inr tc \<and> tc \<le> t))"
        using step f1 by auto
      have f2: "self_event_change_times s2 = self_event_change_times s"
        using step f1 by auto
      show ?thesis
      proof (cases r2)
        case (Inl e)
        with mv Inr True st2 have "ffde_run g s mv st (t # ts) = [(s1, t, s2)]" by simp
        with hd show ?thesis by simp
      next
        case r2: (Inr c2)
        with mv Inr True st2
        have run: "ffde_run g s mv st (t # ts) = (s1, t, s2) # ffde_run g s2 (mv \<and> c1 = Cont) (c2 = Cont) ts"
          by simp
        from Cons.IH [of s2 "mv \<and> c1 = Cont" "c2 = Cont"] hd f2 show ?thesis
          unfolding run by simp
      qed
    qed
  qed
qed

lemma ffde_run_sorted:
  "sorted (map current_event_num (s # map (\<lambda>(s0, t, s1). s1) (ffde_run g s mv st ts)))"
proof (induction ts arbitrary: s mv st)
  case Nil
  show ?case by simp
next
  case (Cons t ts)
  obtain s1 r1 where mv: "(if mv then move_texture_task g s t else (s, Inr Done)) = (s1, r1)"
    by fastforce
  have f1: "current_event_num s1 = current_event_num s"
    using mv move_texture_task_fields [of g s t s1 r1] by (auto split: if_splits)
  show ?case
  proof (cases r1)
    case (Inl e)
    with mv show ?thesis by simp
  next
    case (Inr c1)
    show ?thesis
    proof (cases st)
      case False
      with mv Inr have "ffde_run g s mv st (t # ts) = ffde_run g s1 (mv \<and> c1 = Cont) False ts"
        by simp
      with Cons.IH [of s1 "mv \<and> c1 = Cont" False] f1 show ?thesis by simp
    next
      case True
      obtain s2 r2 where st2: "set_texture_task g s1 t = (s2, r2)" by fastforce
      from set_texture_task_step [of g s1 t] st2 f1
      have le: "current_event_num s \<le> current_event_num s2" by auto
      show ?thesis
      proof (cases r2)
        case (Inl e)
        with mv Inr True st2 have "ffde_run g s mv st (t # ts) = [(s1, t, s2)]" by simp
        with le show ?thesis by simp
      next
        case r2: (Inr c2)
        with mv Inr True st2
        have run: "ffde_run g s mv st (t # ts) = (s1, t, s2) # ffde_run g s2 (mv \<and> c1 = Cont) (c2 = Cont) ts"
          by simp
        have "sorted (current_event_num s2 # map current_event_num
                 (map (\<lambda>(s0, t, s1). s1) (ffde_run g s2 (mv \<and> c1 = Cont) (c2 = Cont) ts)))"
          using Cons.IH [of s2 "mv \<and> c1 = Cont" "c2 = Cont"] by (simp only: list.map)
        from sorted_cons2 [OF le this] show ?thesis
          unfolding run by (simp only: list.map prod.case)
      qed
    qed
  qed
qed

subsection \<open>The value a task returns\<close>

lemma continue_or_finish_sentinel:
  assumes "continue_or_finish p s t = (s1, Inr r)"
  shows "\<exists>last_change. py_index (event_change_times p) (- 1) = Inr last_change
       \<and> (if t \<le> last_change then r = Cont
          else r = Done \<and> windowProps_title s1 = ''Full field: done'')"
  using assms by (auto simp: continue_or_finish_def split: sum.splits if_splits)

lemma moveTextureTask_sentinel:
  assumes "snd (moveTextureTask p s t) = Inr r"
  shows "\<exists>last_change. py_index (event_change_times p) (- 1) = Inr last_change
       \<and> (if t \<le> last_change then r = Cont
          else r = Done \<and> windowProps_title (fst (moveTextureTask p s t)) = ''Full field: done'')"
proof -
  obtain s3 where m: "moveTextureTask p s t = (s3, Inr r)"
    using assms by (cases "moveTextureTask p s t") simp
  then obtain s2 where "continue_or_finish p s2 t = (s3, Inr r)"
    by (auto simp: moveTextureTask_def split: sum.splits prod.splits option.splits if_splits)
  from continue_or_finish_sentinel [OF this]
  obtain lc where "py_index (event_change_times p) (- 1) = Inr lc"
    and "if t \<le> lc then r = Cont else r = Done \<and> windowProps_title s3 = ''Full field: done''"
    by blast
  with m show ?thesis by (auto split: if_splits)
qed

lemma move_texture_task_sentinel:
  assumes "snd (move_texture_task g s t) = Inr r"
  shows "\<exists>last_change. py_index (global_event_change_times g) (- 1) = Inr last_change
       \<and> (if t \<le> last_change then r = Cont
          else r = Done \<and> ffde_title (fst (move_texture_task g s t)) = ''FFDE Done'')"
  using assms by (auto simp: move_texture_task_def split: sum.splits if_splits)

lemma move_texture_task_finish:
  assumes "py_index (global_event_change_times g) (- 1) = Inr last_change" and "last_change < t"
  shows "move_texture_task g s t = (s\<lparr> ffde_title := ''FFDE Done'' \<rparr>, Inr Done)"
  using assms by (simp add: move_texture_task_def)

section \<open>The event-timeline steppers at work\<close>

subsection \<open>The module and the scripts at their own parameters\<close>

lemma app_eq:
  "app = \<lparr> event_change_num = 0, stim_num = - 1, baseline_stim = True,
           windowProps_title = ''Full field: running'',
           card1_color = bgcolor, card1_textured = False,
           card1_R = 90, card1_texpos = 0 \<rparr>"
  by (simp add: app_def MyApp_init_def module_params_def py_index_def)

lemma exp_app_eq:
  "exp_app = \<lparr> events = [-1, 2, -1, 1, -1, 0, -1, 1, -1],
       self_event_change_times = [2, 6, 10, 14, 16, 18, 21, 24, 26],
       self_event_durations = script_event_durations, current_event_num = 0,
       num_events = 9, stim_params = script_stim_params,
       self_texture_size = 512, self_window_size = 512,
       ffde_title = ''FFDE Initializing'', ffde_card1_color = bgcolor,
       ffde_card1_textured = False, ffde_card1_R = 0, ffde_card1_texpos = 0,
       self_texture = None, has_texture_stage = False \<rparr>"
  by (simp add: exp_app_def FullFieldDriftExperiment_init_def all_events_eq script_times_eq)

lemma script_eq:
  "script = \<lparr> global_event_change_times = [2, 6, 10, 14, 16, 18, 21, 24, 26],
              texture_function = sin_texture, global_texture_size = 512 \<rparr>"
  by (simp add: script_def script_times_eq)

lemma typical_times_eq: "cumsum typical_event_durations = [1, 2, 3, 4, 5, 6, 7, 8]"
  by (simp add: typical_event_durations_def cumsum_def eval_nat_numeral)

lemma typical_app_eq:
  "typical_app = \<lparr> events = [-1, 2, 0, 1, -1, 1, 0, 2],
       self_event_change_times = [1, 2, 3, 4, 5, 6, 7, 8],
       self_event_durations = typical_event_durations, current_event_num = 0,
       num_events = 8, stim_params = script_stim_params,
       self_texture_size = 512, self_window_size = 512,
       ffde_title = ''FFDE Initializing'', ffde_card1_color = bgcolor,
       ffde_card1_textured = False, ffde_card1_R = 0, ffde_card1_texpos = 0,
       self_texture = None, has_texture_stage = False \<rparr>"
  by (simp add: typical_app_def FullFieldDriftExperiment_init_def typical_events_def
      typical_times_eq)

lemma typical_script_eq:
  "typical_script = \<lparr> global_event_change_times = [1, 2, 3, 4, 5, 6, 7, 8],
              texture_function = sin_texture, global_texture_size = 512 \<rparr>"
  by (simp add: typical_script_def typical_times_eq)

lemma module_angles: "angles module_params = [-20, 20, 45, 90]"
  by (simp add: module_params_def)

lemma module_shift_velocities: "shift_velocities module_params = [-0.15, 0.05, 0.25, -0.1]"
  by (simp add: module_params_def)

lemmas MyApp_eval = app_eq module_event_change_times module_angles module_shift_velocities
  moveTextureTask_def change_event_def stimulus_on_def stimulus_off_def shift_texture_def
  continue_or_finish_def py_index_def num_event_changes_def Let_def

lemmas ffde_eval = py_index_def set_texture_task_def move_texture_task_def
  next_event_def current_event_ind_def current_stim_params_def show_baseline_def
  show_stimulus_def script_stim_params_def sin_texture_def flat0_type_def arr_size_def
  component_type_of_def format_of_def ndim_def ram_image_fits_def itemsize_def
  component_width_def Let_def

subsection \<open>The invocations of a run of \<open>MyApp\<close>\<close>

lemma stimulus_on_stim_num:
  "stimulus_on p s = (s1, r) \<Longrightarrow> stim_num s1 = stim_num s + 1"
  by (auto simp: stimulus_on_def Let_def split: sum.splits)

lemma shift_texture_stim_num: "shift_texture p s t = (s1, r) \<Longrightarrow> stim_num s1 = stim_num s"
  by (auto simp: shift_texture_def split: if_splits sum.splits)

lemma continue_or_finish_stim_num:
  "continue_or_finish p s t = (s1, r) \<Longrightarrow> stim_num s1 = stim_num s"
  by (auto simp: continue_or_finish_def split: if_splits sum.splits)

lemma moveTextureTask_tail_stim_num:
  assumes "(case shift_texture p s1 t of (s2, Some e) \<Rightarrow> (s2, Inl e)
            | (s2, None) \<Rightarrow> continue_or_finish p s2 t) = (s3, r)"
  shows "stim_num s3 = stim_num s1"
proof -
  obtain s2 r2 where sh: "shift_texture p s1 t = (s2, r2)" by fastforce
  note f = shift_texture_stim_num [OF sh]
  show ?thesis
  proof (cases r2)
    case None
    with assms sh have "continue_or_finish p s2 t = (s3, r)" by simp
    from continue_or_finish_stim_num [OF this] f show ?thesis by simp
  next
    case (Some e)
    with assms sh have "s3 = s2" by simp
    with f show ?thesis by simp
  qed
qed

lemma moveTextureTask_stim_num:
  assumes idx: "py_index (event_change_times p) (event_change_num s) = Inr tc"
    and ang: "baseline_stim s \<longrightarrow> (\<exists>a. py_index (angles p) (stim_num s + 1) = Inr a)"
  shows "stim_num (fst (moveTextureTask p s t))
       = (if tc \<le> t \<and> baseline_stim s then stim_num s + 1 else stim_num s)"
proof (cases "tc \<le> t")
  case False
  obtain s3 r where r: "(case shift_texture p s t of (s2, Some e) \<Rightarrow> (s2, Inl e)
            | (s2, None) \<Rightarrow> continue_or_finish p s2 t) = (s3, r)"
    by fastforce
  from idx False have "moveTextureTask p s t = (s3, r)"
    by (simp add: moveTextureTask_def r)
  with moveTextureTask_tail_stim_num [OF r] False show ?thesis by simp
next
  case True
  have n: "event_change_num s < int (num_event_changes p)"
    using idx by (simp add: num_event_changes_def py_index_Inr_less)
  have "\<exists>s1. change_event p s = (s1, None)
          \<and> stim_num s1 = (if baseline_stim s then stim_num s + 1 else stim_num s)"
  proof (cases "baseline_stim s")
    case True
    with ang obtain a where "py_index (angles p) (stim_num s + 1) = Inr a" by blast
    with True n show ?thesis
      by (simp add: change_event_def stimulus_on_def Let_def)
  next
    case False
    with n show ?thesis
      by (simp add: change_event_def stimulus_off_def)
  qed
  then obtain s1 where c: "change_event p s = (s1, None)"
    and s1: "stim_num s1 = (if baseline_stim s then stim_num s + 1 else stim_num s)"
    by blast
  obtain s3 r where r: "(case shift_texture p s1 t of (s2, Some e) \<Rightarrow> (s2, Inl e)
            | (s2, None) \<Rightarrow> continue_or_finish p s2 t) = (s3, r)"
    by fastforce
  from idx True c have "moveTextureTask p s t = (s3, r)"
    by (simp add: moveTextureTask_def r)
  with moveTextureTask_tail_stim_num [OF r] s1 True show ?thesis by simp
qed

lemma module_num_event_changes: "num_event_changes module_params = 8"
  by (simp add: num_event_changes_def module_event_change_times)

lemma MyApp_inv_angle:
  assumes "MyApp_inv module_params s"
    and "py_index (event_change_times module_params) (event_change_num s) = Inr tc"
  shows "baseline_stim s \<longrightarrow> (\<exists>a. py_index (angles module_params) (stim_num s + 1) = Inr a)"
proof
  assume b: "baseline_stim s"
  from assms(2) have "event_change_num s < 8"
    using py_index_Inr_less [OF assms(2)] by (simp add: module_event_change_times)
  with assms(1) b have "0 \<le> stim_num s + 1 \<and> stim_num s + 1 < 4"
    by (auto simp: MyApp_inv_def)
  then show "\<exists>a. py_index (angles module_params) (stim_num s + 1) = Inr a"
    by (simp add: py_index_def module_angles)
qed

lemma MyApp_inv_step:
  assumes "MyApp_inv module_params s"
  shows "MyApp_inv module_params (fst (moveTextureTask module_params s t))"
proof (cases "py_index (event_change_times module_params) (event_change_num s)")
  case (Inl e)
  with assms show ?thesis by (simp add: moveTextureTask_def)
next
  case (Inr tc)
  note ang = MyApp_inv_angle [OF assms Inr]
  have lt: "event_change_num s < 8"
    using py_index_Inr_less [OF Inr] by (simp add: module_event_change_times)
  show ?thesis
  proof (cases "tc \<le> t")
    case True
    from moveTextureTask_reached [OF Inr True ang] moveTextureTask_stim_num [OF Inr ang, of t]
      True assms lt
    show ?thesis
      by (auto simp: MyApp_inv_def module_num_event_changes)
  next
    case False
    then have "t < tc" by simp
    from moveTextureTask_below [OF Inr this] moveTextureTask_stim_num [OF Inr ang, of t]
      False assms
    show ?thesis
      by (auto simp: MyApp_inv_def)
  qed
qed

lemma MyApp_inv_app: "MyApp_inv module_params app"
  by (simp add: MyApp_inv_def app_eq)

lemma MyApp_run_entries:
  "\<forall>(s0, t, s1) \<in> set (MyApp_run module_params s ts).
     s1 = fst (moveTextureTask module_params s0 t)
   \<and> (MyApp_inv module_params s \<longrightarrow> MyApp_inv module_params s0)"
proof (induction ts arbitrary: s)
  case Nil
  show ?case by simp
next
  case (Cons t ts)
  obtain s' r where m: "moveTextureTask module_params s t = (s', r)" by fastforce
  show ?case
  proof (cases "r = Inr Cont")
    case True
    with m have run: "MyApp_run module_params s (t # ts) = (s, t, s') # MyApp_run module_params s' ts"
      by simp
    have "MyApp_inv module_params s \<longrightarrow> MyApp_inv module_params s'"
      using MyApp_inv_step [of s t] m by simp
    with Cons.IH [of s'] m show ?thesis
      unfolding run by fastforce
  next
    case False
    with m have "MyApp_run module_params s (t # ts) = [(s, t, s')]"
      by (auto split: sum.splits sentinel.splits)
    with m show ?thesis by simp
  qed
qed

lemma MyApp_invocation:
  assumes "(s0, t, s1) \<in> set (MyApp_run module_params app ts)"
    and "py_index (event_change_times module_params) (event_change_num s0) = Inr tc"
  shows "(tc \<le> t \<longrightarrow> event_change_num s1 = event_change_num s0 + 1
                    \<and> baseline_stim s1 = (\<not> baseline_stim s0))
       \<and> (t < tc \<longrightarrow> event_change_num s1 = event_change_num s0
                    \<and> baseline_stim s1 = baseline_stim s0)"
proof -
  from MyApp_run_entries [of app ts] assms(1) MyApp_inv_app
  have s1: "s1 = fst (moveTextureTask module_params s0 t)" and inv: "MyApp_inv module_params s0"
    by auto
  note ang = MyApp_inv_angle [OF inv assms(2)]
  from moveTextureTask_reached [OF assms(2) _ ang, of t] moveTextureTask_below [OF assms(2), of t]
  show ?thesis unfolding s1 by blast
qed

subsection \<open>What an advancing invocation of \<open>set_texture_task\<close> shows\<close>

lemma show_baseline_shown:
  assumes "show_baseline s = (s1, None)"
  shows "\<not> ffde_card1_textured s1 \<and> ffde_card1_color s1 = bgcolor"
  using assms by (auto simp: show_baseline_def Let_def split: if_splits)

lemma show_stimulus_shown:
  assumes "show_stimulus g s ev = (s1, None)"
  shows "ffde_card1_textured s1 \<and> ffde_card1_color s1 = (1, 1, 1, 1)"
  using assms
  by (auto simp: show_stimulus_def Let_def split: sum.splits prod.splits if_splits)

lemma set_texture_task_next_event:
  assumes "py_index (global_event_change_times g) (- 1) = Inr last_change"
    and "py_index (self_event_change_times s) (current_event_num s) = Inr tc"
    and "tc \<le> t" and "t \<le> last_change"
  shows "set_texture_task g s t =
           (case next_event g s of (s1, Some e) \<Rightarrow> (s1, Inl e) | (s1, None) \<Rightarrow> (s1, Inr Cont))"
  using assms by (simp add: set_texture_task_def)

lemma set_texture_task_shows:
  assumes last: "py_index (global_event_change_times g) (- 1) = Inr last_change"
    and idx: "py_index (self_event_change_times s) (current_event_num s) = Inr tc"
    and t: "tc \<le> t" "t \<le> last_change"
    and ev: "py_index (events s) (current_event_num s + 1) = Inr ev"
    and ret: "snd (set_texture_task g s t) = Inr r"
  shows "r = Cont
       \<and> current_event_ind (fst (set_texture_task g s t)) = Inr ev
       \<and> ffde_card1_textured (fst (set_texture_task g s t)) = (ev \<noteq> - 1)
       \<and> ffde_card1_color (fst (set_texture_task g s t))
           = (if ev = - 1 then bgcolor else (1, 1, 1, 1))"
proof -
  let ?s = "s\<lparr> current_event_num := current_event_num s + 1 \<rparr>"
  obtain s1 r1 where n: "next_event g s = (s1, r1)" by fastforce
  note st = set_texture_task_next_event [OF last idx t]
  from ret n st have r1: "r1 = None" and r: "r = Cont"
    by (cases r1; simp)+
  from n r1 st have s1: "fst (set_texture_task g s t) = s1" by simp
  from next_event_fields [OF n] ev
  have ind: "current_event_ind s1 = Inr ev"
    by (simp add: current_event_ind_def)
  have cur: "current_event_ind ?s = Inr ev"
    using ev by (simp add: current_event_ind_def)
  show ?thesis
  proof (cases "ev = - 1")
    case True
    with n r1 cur have "show_baseline ?s = (s1, None)"
      by (simp add: next_event_def Let_def)
    from show_baseline_shown [OF this] True r ind show ?thesis
      unfolding s1 by simp
  next
    case False
    with n r1 cur have "show_stimulus g ?s ev = (s1, None)"
      by (simp add: next_event_def Let_def)
    from show_stimulus_shown [OF this] False r ind show ?thesis
      unfolding s1 by simp
  qed
qed

lemma set_texture_task_baseline_returns:
  assumes last: "py_index (global_event_change_times g) (- 1) = Inr last_change"
    and idx: "py_index (self_event_change_times s) (current_event_num s) = Inr tc"
    and t: "tc \<le> t" "t \<le> last_change"
    and ev: "py_index (events s) (current_event_num s + 1) = Inr (- 1)"
    and stage: "has_texture_stage s"
  shows "snd (set_texture_task g s t) = Inr Cont"
  using ev stage
  unfolding set_texture_task_next_event [OF last idx t]
  by (simp add: next_event_def current_event_ind_def show_baseline_def Let_def)

lemma built_texture_next_event:
  assumes "built_texture g s t = Some a"
  shows "\<exists>ev sp. ev \<noteq> - 1
     \<and> py_index (stim_params s) ev = Inr sp \<and> texture_function g (kwargs sp) = a
     \<and> set_texture_task g s t =
        (case show_stimulus g (s\<lparr> current_event_num := current_event_num s + 1 \<rparr>) ev of
           (s1, Some e) \<Rightarrow> (s1, Inl e) | (s1, None) \<Rightarrow> (s1, Inr Cont))"
  using assms
  by (auto simp: built_texture_def set_texture_task_def next_event_def current_event_ind_def
      Let_def split: sum.splits if_splits)

lemma show_stimulus_result:
  assumes "py_index (stim_params s) ev = Inr sp" and "texture_function g (kwargs sp) = a"
  shows "snd (show_stimulus g s ev) =
     (if arr_size a = 0 then Some IndexError
      else if arr_dtype a \<noteq> np_uint8 \<and> arr_dtype a \<noteq> np_uint16 then
        Some (ValueError ''Texture needs to be uint8 or uint16. Let me know if you have others.'')
      else if ndim a \<noteq> 2 \<and> ndim a \<noteq> 3 then
        Some (ValueError ''Texture needs to be 2d or 3d (rgb). Let us know if you have others.'')
      else if \<not> texture_loads a (global_texture_size g) then Some AssertionError
      else None)"
  using assms
  by (auto simp: show_stimulus_def flat0_type_def component_type_of_def format_of_def Let_def
      texture_loads_def split: sum.splits prod.splits)

lemma set_texture_task_texture:
  assumes "built_texture g s t = Some a"
  shows "snd (set_texture_task g s t) =
     (if arr_size a = 0 then Inl IndexError
      else if arr_dtype a \<noteq> np_uint8 \<and> arr_dtype a \<noteq> np_uint16 then
        Inl (ValueError ''Texture needs to be uint8 or uint16. Let me know if you have others.'')
      else if ndim a \<noteq> 2 \<and> ndim a \<noteq> 3 then
        Inl (ValueError ''Texture needs to be 2d or 3d (rgb). Let us know if you have others.'')
      else if \<not> texture_loads a (global_texture_size g) then Inl AssertionError
      else Inr Cont)"
proof -
  from built_texture_next_event [OF assms]
  obtain ev sp where ev: "py_index (stim_params s) ev = Inr sp" "texture_function g (kwargs sp) = a"
    and st: "set_texture_task g s t =
        (case show_stimulus g (s\<lparr> current_event_num := current_event_num s + 1 \<rparr>) ev of
           (s1, Some e) \<Rightarrow> (s1, Inl e) | (s1, None) \<Rightarrow> (s1, Inr Cont))"
    by blast
  let ?s = "s\<lparr> current_event_num := current_event_num s + 1 \<rparr>"
  have "py_index (stim_params ?s) ev = Inr sp" using ev by simp
  from show_stimulus_result [OF this ev(2)]
  show ?thesis
    unfolding st by (cases "show_stimulus g ?s ev") (auto split: option.splits)
qed

lemma set_texture_task_stimulus_returns:
  assumes "built_texture g s t = Some a" and "texture_loads a (global_texture_size g)"
  shows "snd (set_texture_task g s t) = Inr Cont"
  using assms(2) unfolding set_texture_task_texture [OF assms(1)]
  by (auto simp: texture_loads_def)

text \<open>
  C1, as amended. \<open>MyApp.moveTextureTask\<close>, in every invocation of every run of the
  application with the event-change index in range: when the elapsed time has reached the
  change time at the index, the index goes up by exactly one and the baseline/stimulus
  state is toggled; when the elapsed time is below that change time, both stay as they
  are. \<open>FullFieldDriftExperiment.set_texture_task\<close>, with the index in range: when the
  elapsed time has reached the change time at the index and is not beyond the last
  event-change time, the index goes up by exactly one and, if the invocation returns, the
  card shows the event at the new index, the background without texture for a baseline
  (\<open>-1\<close>) and the texture for a stimulus, which is a toggle whenever the events at the
  old and the new index are of different kinds; it returns \<open>task.cont\<close> for a baseline
  once a texture stage exists and for a stimulus whose texture loads. When the elapsed
  time is below the change time or beyond the last event-change time, the whole state is
  unchanged.
\<close>

theorem stepper_step:
  "(\<forall>(s0, t, s1) \<in> set (MyApp_run module_params app ts).
      \<forall>tc. py_index (event_change_times module_params) (event_change_num s0) = Inr tc \<longrightarrow>
        (tc \<le> t \<longrightarrow> event_change_num s1 = event_change_num s0 + 1
                     \<and> baseline_stim s1 = (\<not> baseline_stim s0))
      \<and> (t < tc \<longrightarrow> event_change_num s1 = event_change_num s0
                     \<and> baseline_stim s1 = baseline_stim s0))
 \<and> (py_index (global_event_change_times g) (- 1) = Inr last_change
    \<and> py_index (self_event_change_times x) (current_event_num x) = Inr xc \<longrightarrow>
      (xc \<le> t' \<and> t' \<le> last_change \<longrightarrow>
         current_event_num (fst (set_texture_task g x t')) = current_event_num x + 1
       \<and> events (fst (set_texture_task g x t')) = events x
       \<and> (\<forall>ev r. py_index (events x) (current_event_num x + 1) = Inr ev
                 \<and> snd (set_texture_task g x t') = Inr r \<longrightarrow>
              r = Cont
            \<and> current_event_ind (fst (set_texture_task g x t')) = Inr ev
            \<and> ffde_card1_textured (fst (set_texture_task g x t')) = (ev \<noteq> - 1)
            \<and> ffde_card1_color (fst (set_texture_task g x t'))
                = (if ev = - 1 then bgcolor else (1, 1, 1, 1)))
       \<and> (py_index (events x) (current_event_num x + 1) = Inr (- 1) \<and> has_texture_stage x \<longrightarrow>
              snd (set_texture_task g x t') = Inr Cont)
       \<and> (\<forall>a. built_texture g x t' = Some a \<and> texture_loads a (global_texture_size g) \<longrightarrow>
              snd (set_texture_task g x t') = Inr Cont))
    \<and> (t' < xc \<or> last_change < t' \<longrightarrow> fst (set_texture_task g x t') = x))"
proof -
  have a: "\<forall>(s0, t, s1) \<in> set (MyApp_run module_params app ts).
      \<forall>tc. py_index (event_change_times module_params) (event_change_num s0) = Inr tc \<longrightarrow>
        (tc \<le> t \<longrightarrow> event_change_num s1 = event_change_num s0 + 1
                     \<and> baseline_stim s1 = (\<not> baseline_stim s0))
      \<and> (t < tc \<longrightarrow> event_change_num s1 = event_change_num s0
                     \<and> baseline_stim s1 = baseline_stim s0)"
    using MyApp_invocation [of _ _ _ ts] by fastforce
  have b: "py_index (global_event_change_times g) (- 1) = Inr last_change
    \<and> py_index (self_event_change_times x) (current_event_num x) = Inr xc \<longrightarrow>
      (xc \<le> t' \<and> t' \<le> last_change \<longrightarrow>
         current_event_num (fst (set_texture_task g x t')) = current_event_num x + 1
       \<and> events (fst (set_texture_task g x t')) = events x
       \<and> (\<forall>ev r. py_index (events x) (current_event_num x + 1) = Inr ev
                 \<and> snd (set_texture_task g x t') = Inr r \<longrightarrow>
              r = Cont
            \<and> current_event_ind (fst (set_texture_task g x t')) = Inr ev
            \<and> ffde_card1_textured (fst (set_texture_task g x t')) = (ev \<noteq> - 1)
            \<and> ffde_card1_color (fst (set_texture_task g x t'))
                = (if ev = - 1 then bgcolor else (1, 1, 1, 1)))
       \<and> (py_index (events x) (current_event_num x + 1) = Inr (- 1) \<and> has_texture_stage x \<longrightarrow>
              snd (set_texture_task g x t') = Inr Cont)
       \<and> (\<forall>a. built_texture g x t' = Some a \<and> texture_loads a (global_texture_size g) \<longrightarrow>
              snd (set_texture_task g x t') = Inr Cont))
    \<and> (t' < xc \<or> last_change < t' \<longrightarrow> fst (set_texture_task g x t') = x)"
  proof (intro impI, elim conjE)
    assume last: "py_index (global_event_change_times g) (- 1) = Inr last_change"
      and idx: "py_index (self_event_change_times x) (current_event_num x) = Inr xc"
    show "(xc \<le> t' \<and> t' \<le> last_change \<longrightarrow>
         current_event_num (fst (set_texture_task g x t')) = current_event_num x + 1
       \<and> events (fst (set_texture_task g x t')) = events x
       \<and> (\<forall>ev r. py_index (events x) (current_event_num x + 1) = Inr ev
                 \<and> snd (set_texture_task g x t') = Inr r \<longrightarrow>
              r = Cont
            \<and> current_event_ind (fst (set_texture_task g x t')) = Inr ev
            \<and> ffde_card1_textured (fst (set_texture_task g x t')) = (ev \<noteq> - 1)
            \<and> ffde_card1_color (fst (set_texture_task g x t'))
                = (if ev = - 1 then bgcolor else (1, 1, 1, 1)))
       \<and> (py_index (events x) (current_event_num x + 1) = Inr (- 1) \<and> has_texture_stage x \<longrightarrow>
              snd (set_texture_task g x t') = Inr Cont)
       \<and> (\<forall>a. built_texture g x t' = Some a \<and> texture_loads a (global_texture_size g) \<longrightarrow>
              snd (set_texture_task g x t') = Inr Cont))
    \<and> (t' < xc \<or> last_change < t' \<longrightarrow> fst (set_texture_task g x t') = x)"
      using set_texture_task_reached [OF last idx, of t']
        set_texture_task_shows [OF last idx, of t']
        set_texture_task_baseline_returns [OF last idx, of t']
        set_texture_task_stimulus_returns [of g x t']
        set_texture_task_unchanged [OF last idx, of t']
      by blast
  qed
  from a b show ?thesis by (rule conjI)
qed

lemma MyApp_two_frames:
  "map (\<lambda>(s0, t, s1). (event_change_num s0, baseline_stim s0, t, event_change_num s1, baseline_stim s1))
     (MyApp_run module_params app [3, 4]) = [(0, True, 3, 0, True), (0, True, 4, 1, False)]"
  by (simp add: MyApp_eval)

lemma script_last_change: "py_index (global_event_change_times script) (- 1) = Inr 26"
  by (simp add: script_eq py_index_def)

lemma exp_app_first_change:
  "py_index (self_event_change_times exp_app) (current_event_num exp_app) = Inr 2"
  by (simp add: exp_app_eq py_index_def)

lemma exp_app_first_stimulus:
  "snd (set_texture_task script exp_app 2) = Inr Cont
 \<and> current_event_num (fst (set_texture_task script exp_app 2)) = 1
 \<and> current_event_ind (fst (set_texture_task script exp_app 2)) = Inr 2
 \<and> ffde_card1_textured (fst (set_texture_task script exp_app 2))"
  by (simp add: exp_app_eq script_eq ffde_eval)

text \<open>
  Two frames of \<open>MyApp\<close>, before and at the first change time, and the first change of
  the experiment of test case 5 at 2 s.
\<close>

theorem stepper_step_witness:
  "map (\<lambda>(s0, t, s1). (event_change_num s0, baseline_stim s0, t, event_change_num s1, baseline_stim s1))
     (MyApp_run module_params app [3, 4]) = [(0, True, 3, 0, True), (0, True, 4, 1, False)]
 \<and> py_index (global_event_change_times script) (- 1) = Inr 26
 \<and> py_index (self_event_change_times exp_app) (current_event_num exp_app) = Inr 2
 \<and> snd (set_texture_task script exp_app 2) = Inr Cont
 \<and> current_event_num (fst (set_texture_task script exp_app 2)) = current_event_num exp_app + 1
 \<and> current_event_ind (fst (set_texture_task script exp_app 2)) = Inr 2
 \<and> ffde_card1_textured (fst (set_texture_task script exp_app 2))
 \<and> fst (set_texture_task script exp_app 1) = exp_app"
  using stepper_step [where ts = "[3, 4]" and g = script and last_change = 26 and x = exp_app
      and xc = 2 and t' = 2]
    stepper_step [where ts = "[3, 4]" and g = script and last_change = 26 and x = exp_app
      and xc = 2 and t' = 1]
    MyApp_two_frames script_last_change exp_app_first_change exp_app_first_stimulus
  by simp

text \<open>
  The experiment of test case 5 with one frame at each change time and one at 27 s: in the
  last invocation the index 8 is in range and its change time 26 has been reached, but the
  time is beyond the last event-change time and the index stays 8. And the experiment
  with the typical events of the docstring: the frame at 2 s advances from the stimulus 2
  to the stimulus 0, so a stimulus shows before and after.
\<close>

theorem stepper_step_counterexample:
  "py_index (self_event_change_times exp_app) 8 = Inr 26
 \<and> py_index (global_event_change_times script) (- 1) = Inr 26
 \<and> map (\<lambda>(s0, t, s1). (current_event_num s0, t, current_event_num s1))
      (ffde_run script exp_app True True [2, 6, 10, 14, 16, 18, 21, 24, 27])
    = [(0, 2, 1), (1, 6, 2), (2, 10, 3), (3, 14, 4), (4, 16, 5), (5, 18, 6), (6, 21, 7),
       (7, 24, 8), (8, 27, 8)]
 \<and> map (\<lambda>(s0, t, s1). (current_event_ind s0, ffde_card1_textured s0, t,
                         current_event_ind s1, ffde_card1_textured s1))
      (ffde_run typical_script typical_app True True [1, 2])
    = [(Inr (- 1), False, 1, Inr 2, True), (Inr 2, True, 2, Inr 0, True)]"
  by (simp add: exp_app_eq script_eq typical_app_eq typical_script_eq ffde_eval)

text \<open>
  C2. Along every sequence of invocations of either stepper the event-change index never
  decreases: the indices before the first and after each invocation are sorted, no
  invocation lowers the index, and an invocation raises it only when the elapsed time has
  reached the change time at the index it started from. This holds for every sequence of
  elapsed times, the non-decreasing ones among them.
\<close>

theorem event_index_monotone:
  "sorted (map event_change_num (s # map (\<lambda>(s0, t, s1). s1) (MyApp_run p s ts)))
 \<and> (\<forall>(s0, t, s1) \<in> set (MyApp_run p s ts).
       event_change_num s0 \<le> event_change_num s1
     \<and> (event_change_num s0 < event_change_num s1 \<longrightarrow>
          (\<exists>tc. py_index (event_change_times p) (event_change_num s0) = Inr tc \<and> tc \<le> t)))
 \<and> sorted (map current_event_num (x # map (\<lambda>(s0, t, s1). s1) (ffde_run g x mv st ts')))
 \<and> (\<forall>(s0, t, s1) \<in> set (ffde_run g x mv st ts').
       current_event_num s0 \<le> current_event_num s1
     \<and> (current_event_num s0 < current_event_num s1 \<longrightarrow>
          (\<exists>tc. py_index (self_event_change_times x) (current_event_num s0) = Inr tc \<and> tc \<le> t)))"
proof -
  have a: "\<forall>(s0, t, s1) \<in> set (MyApp_run p s ts).
       event_change_num s0 \<le> event_change_num s1
     \<and> (event_change_num s0 < event_change_num s1 \<longrightarrow>
          (\<exists>tc. py_index (event_change_times p) (event_change_num s0) = Inr tc \<and> tc \<le> t))"
    using MyApp_run_bounds [of p s ts] by fastforce
  have b: "\<forall>(s0, t, s1) \<in> set (ffde_run g x mv st ts').
       current_event_num s0 \<le> current_event_num s1
     \<and> (current_event_num s0 < current_event_num s1 \<longrightarrow>
          (\<exists>tc. py_index (self_event_change_times x) (current_event_num s0) = Inr tc \<and> tc \<le> t))"
    using ffde_run_bounds [of g x mv st ts'] by fastforce
  from a b MyApp_run_sorted [of s p ts] ffde_run_sorted [of x g mv st ts']
  show ?thesis by blast
qed

lemma MyApp_run_example:
  "map (\<lambda>(s0, t, s1). (event_change_num s0, t, event_change_num s1))
     (MyApp_run module_params app [1, 4, 5, 8]) = [(0, 1, 0), (0, 4, 1), (1, 5, 1), (1, 8, 2)]"
  by (simp add: MyApp_eval)

lemma ffde_run_example:
  "map (\<lambda>(s0, t, s1). (current_event_num s0, t, current_event_num s1))
     (ffde_run script exp_app True True [1, 2, 5, 6]) = [(0, 1, 0), (0, 2, 1), (1, 5, 1), (1, 6, 2)]"
  by (simp add: exp_app_eq script_eq ffde_eval)

text \<open>Four frames of each application.\<close>

theorem event_index_monotone_witness:
  "map (\<lambda>(s0, t, s1). (event_change_num s0, t, event_change_num s1))
     (MyApp_run module_params app [1, 4, 5, 8]) = [(0, 1, 0), (0, 4, 1), (1, 5, 1), (1, 8, 2)]
 \<and> sorted (map event_change_num
      (app # map (\<lambda>(s0, t, s1). s1) (MyApp_run module_params app [1, 4, 5, 8])))
 \<and> map (\<lambda>(s0, t, s1). (current_event_num s0, t, current_event_num s1))
     (ffde_run script exp_app True True [1, 2, 5, 6]) = [(0, 1, 0), (0, 2, 1), (1, 5, 1), (1, 6, 2)]
 \<and> sorted (map current_event_num
      (exp_app # map (\<lambda>(s0, t, s1). s1) (ffde_run script exp_app True True [1, 2, 5, 6])))"
  using event_index_monotone [of app module_params "[1, 4, 5, 8]" exp_app script True True "[1, 2, 5, 6]"]
    MyApp_run_example ffde_run_example
  by blast

lemma py_index_last_ok:
  assumes "py_index xs i = Inr x"
  shows "\<exists>y. py_index xs (- 1) = Inr y"
proof -
  from assms have "xs \<noteq> []" by (auto simp: py_index_def Let_def split: if_splits)
  then have "0 < length xs" by simp
  then have "1 \<le> int (length xs)" by linarith
  then show ?thesis by (simp add: py_index_def Let_def)
qed

lemma moveTextureTask_returns:
  assumes idx: "py_index (event_change_times p) (event_change_num s) = Inr tc"
    and on: "tc \<le> t \<and> baseline_stim s \<longrightarrow>
       (\<exists>a. py_index (angles p) (stim_num s + 1) = Inr a)
     \<and> (\<exists>v. py_index (shift_velocities p) (stim_num s + 1) = Inr v)"
    and shown: "t < tc \<and> \<not> baseline_stim s \<longrightarrow>
       (\<exists>v. py_index (shift_velocities p) (stim_num s) = Inr v)"
  shows "\<exists>r. snd (moveTextureTask p s t) = Inr r"
proof -
  from py_index_last_ok [OF idx] obtain lc where lc: "py_index (event_change_times p) (- 1) = Inr lc"
    by blast
  have n: "event_change_num s < int (num_event_changes p)"
    using idx by (simp add: num_event_changes_def py_index_Inr_less)
  show ?thesis
  proof (cases "tc \<le> t")
    case False
    with idx shown lc show ?thesis
      by (auto simp: moveTextureTask_def shift_texture_def continue_or_finish_def)
  next
    case True
    show ?thesis
    proof (cases "baseline_stim s")
      case False
      with True idx lc n show ?thesis
        by (auto simp: moveTextureTask_def change_event_def stimulus_off_def shift_texture_def
            continue_or_finish_def)
    next
      case b: True
      with True on obtain a v where "py_index (angles p) (stim_num s + 1) = Inr a"
        "py_index (shift_velocities p) (stim_num s + 1) = Inr v" by blast
      with True b idx lc n show ?thesis
        by (auto simp: moveTextureTask_def change_event_def stimulus_on_def shift_texture_def
            continue_or_finish_def Let_def)
    qed
  qed
qed

lemma move_texture_task_continues:
  assumes "py_index (global_event_change_times g) (- 1) = Inr lc" and "t \<le> lc"
    and "py_index (events s) (current_event_num s) = Inr ev"
    and "ev \<noteq> - 1 \<longrightarrow> has_texture_stage s \<and> (\<exists>sp. py_index (stim_params s) ev = Inr sp)"
  shows "snd (move_texture_task g s t) = Inr Cont"
  using assms
  by (auto simp: move_texture_task_def current_event_ind_def current_stim_params_def)

text \<open>
  Whenever one of the two tasks returns, it returns what it should: \<open>Task.cont\<close> up to
  the last event-change time, the done title and \<open>Task.done\<close> after it.
  \<open>move_texture_task\<close> tests the time before it looks anything up, so it always
  finishes once the last change time has passed.
\<close>

lemma returned_sentinel:
  "(snd (moveTextureTask p s t) = Inr r \<longrightarrow>
      (\<exists>last_change. py_index (event_change_times p) (- 1) = Inr last_change
         \<and> (if t \<le> last_change then r = Cont
            else r = Done \<and> windowProps_title (fst (moveTextureTask p s t)) = ''Full field: done'')))
 \<and> (py_index (event_change_times p) (event_change_num s) = Inr tc
    \<and> (tc \<le> t \<and> baseline_stim s \<longrightarrow>
         (\<exists>a. py_index (angles p) (stim_num s + 1) = Inr a)
       \<and> (\<exists>v. py_index (shift_velocities p) (stim_num s + 1) = Inr v))
    \<and> (t < tc \<and> \<not> baseline_stim s \<longrightarrow>
         (\<exists>v. py_index (shift_velocities p) (stim_num s) = Inr v)) \<longrightarrow>
      (\<exists>r. snd (moveTextureTask p s t) = Inr r))
 \<and> (snd (move_texture_task g x t') = Inr r' \<longrightarrow>
      (\<exists>last_change. py_index (global_event_change_times g) (- 1) = Inr last_change
         \<and> (if t' \<le> last_change then r' = Cont
            else r' = Done \<and> ffde_title (fst (move_texture_task g x t')) = ''FFDE Done'')))
 \<and> (py_index (global_event_change_times g) (- 1) = Inr last_change \<and> last_change < t' \<longrightarrow>
      move_texture_task g x t' = (x\<lparr> ffde_title := ''FFDE Done'' \<rparr>, Inr Done))
 \<and> (py_index (global_event_change_times g) (- 1) = Inr last_change \<and> t' \<le> last_change
    \<and> py_index (events x) (current_event_num x) = Inr ev
    \<and> (ev \<noteq> - 1 \<longrightarrow> has_texture_stage x \<and> (\<exists>sp. py_index (stim_params x) ev = Inr sp)) \<longrightarrow>
      snd (move_texture_task g x t') = Inr Cont)"
proof -
  have 1: "py_index (event_change_times p) (event_change_num s) = Inr tc
    \<and> (tc \<le> t \<and> baseline_stim s \<longrightarrow>
         (\<exists>a. py_index (angles p) (stim_num s + 1) = Inr a)
       \<and> (\<exists>v. py_index (shift_velocities p) (stim_num s + 1) = Inr v))
    \<and> (t < tc \<and> \<not> baseline_stim s \<longrightarrow>
         (\<exists>v. py_index (shift_velocities p) (stim_num s) = Inr v)) \<longrightarrow>
      (\<exists>r. snd (moveTextureTask p s t) = Inr r)"
    using moveTextureTask_returns [of p s tc t] by blast
  have 2: "py_index (global_event_change_times g) (- 1) = Inr last_change \<and> t' \<le> last_change
    \<and> py_index (events x) (current_event_num x) = Inr ev
    \<and> (ev \<noteq> - 1 \<longrightarrow> has_texture_stage x \<and> (\<exists>sp. py_index (stim_params x) ev = Inr sp)) \<longrightarrow>
      snd (move_texture_task g x t') = Inr Cont"
    using move_texture_task_continues [of g last_change t' x ev] by blast
  from 1 2 moveTextureTask_sentinel [of p s t r] move_texture_task_sentinel [of g x t' r']
    move_texture_task_finish [of g last_change t' x]
  show ?thesis by blast
qed

text \<open>
  C5. Each of the two tasks is to return \<open>Task.cont\<close> while the elapsed time is at most
  the last event-change time, and afterwards to set the done title and return
  \<open>Task.done\<close>. \<open>move_texture_task\<close> does, and so does every invocation of
  \<open>moveTextureTask\<close> that returns; but \<open>moveTextureTask\<close> does not always return.
  Line 84 indexes \<open>event_change_times[self.event_change_num]\<close> before line 86 compares
  the index with \<open>num_event_changes\<close>, so the comparison cannot stop an index that has
  run past the end. A frame at exactly the last change time, 31.5 s, moves the index to 8
  and continues; the next frame, at 32 s, raises \<open>IndexError\<close> where it should set the
  done title and return \<open>Task.done\<close>.
\<close>

theorem moveTextureTask_past_the_end:
  "py_index (event_change_times module_params) (- 1) = Inr 31.5
 \<and> map (\<lambda>(s0, t, s1). (event_change_num s0, t, snd (moveTextureTask module_params s0 t)))
      (MyApp_run module_params app [4, 8, 11, 15, 18, 24, 26.5, 31.5, 32])
    = [(0, 4, Inr Cont), (1, 8, Inr Cont), (2, 11, Inr Cont), (3, 15, Inr Cont),
       (4, 18, Inr Cont), (5, 24, Inr Cont), (6, 26.5, Inr Cont), (7, 31.5, Inr Cont),
       (8, 32, Inl IndexError)]"
  by (simp add: MyApp_eval)

section \<open>Validation of texture arrays\<close>

lemma init_results:
  "FullFieldDrift_init a ang vel ws ts =
     (if arr_size a = 0 then Inl IndexError
      else if ndim a \<noteq> 2 \<and> ndim a \<noteq> 3 then Inl (ValueError ''Texture needs to be 2d or 3d'')
      else if arr_dtype a \<noteq> np_uint8 \<and> arr_dtype a \<noteq> np_uint16 then
        Inl (AttributeError ''texture_component_type'')
      else FullFieldDrift_init a ang vel ws ts)"
  by (auto simp: FullFieldDrift_init_def flat0_type_def setup_texture_def
      select_component_type_def split: sum.splits)

lemma init_results_bd:
  "BinocularDrift_init a sa ma pos vels br ws ts =
     (if arr_size a = 0 then Inl IndexError
      else if ndim a \<noteq> 2 \<and> ndim a \<noteq> 3 then Inl (ValueError ''Texture needs to be 2d or 3d'')
      else if arr_dtype a \<noteq> np_uint8 \<and> arr_dtype a \<noteq> np_uint16 then
        Inl (AttributeError ''texture_component_type'')
      else BinocularDrift_init a sa ma pos vels br ws ts)"
  by (auto simp: BinocularDrift_init_def flat0_type_def setup_texture_def
      select_component_type_def split: sum.splits)

lemma init_no_ValueError:
  assumes "ndim a = 2 \<or> ndim a = 3"
  shows "FullFieldDrift_init a ang vel ws ts \<noteq> Inl (ValueError msg)
       \<and> BinocularDrift_init a sa ma pos vels br ws ts \<noteq> Inl (ValueError msg)"
  using assms
  by (auto simp: FullFieldDrift_init_def BinocularDrift_init_def flat0_type_def
      setup_texture_def select_component_type_def split: sum.splits option.splits if_splits)

text \<open>
  C3. A texture array whose elements are neither \<open>np.uint8\<close> nor \<open>np.uint16\<close> makes
  each of the three operations raise instead of completing. \<open>FullFieldDrift.__init__\<close> and
  \<open>BinocularDrift.__init__\<close> have no check of their own: with two or three dimensions they
  fail with \<open>AttributeError\<close> on the component type that was never assigned, otherwise
  with the \<open>ValueError\<close> of the dimension check. \<open>set_texture_task\<close>, in an invocation
  that builds the texture, raises its \<open>ValueError\<close>. An array without elements raises
  \<open>IndexError\<close> at \<open>flat[0]\<close> in all three.
\<close>

theorem unsupported_dtype_raises:
  assumes "arr_dtype a \<noteq> np_uint8" and "arr_dtype a \<noteq> np_uint16"
  shows "FullFieldDrift_init a ang vel ws ts =
           Inl (if arr_size a = 0 then IndexError
                else if ndim a = 2 \<or> ndim a = 3 then AttributeError ''texture_component_type''
                else ValueError ''Texture needs to be 2d or 3d'')
       \<and> BinocularDrift_init a sa ma pos vels br ws ts =
           Inl (if arr_size a = 0 then IndexError
                else if ndim a = 2 \<or> ndim a = 3 then AttributeError ''texture_component_type''
                else ValueError ''Texture needs to be 2d or 3d'')
       \<and> (built_texture g x t = Some a \<longrightarrow>
            snd (set_texture_task g x t) =
              Inl (if arr_size a = 0 then IndexError
                   else ValueError ''Texture needs to be uint8 or uint16. Let me know if you have others.''))"
proof -
  have 1: "FullFieldDrift_init a ang vel ws ts =
           Inl (if arr_size a = 0 then IndexError
                else if ndim a = 2 \<or> ndim a = 3 then AttributeError ''texture_component_type''
                else ValueError ''Texture needs to be 2d or 3d'')"
    using assms by (subst init_results) simp
  have 2: "BinocularDrift_init a sa ma pos vels br ws ts =
           Inl (if arr_size a = 0 then IndexError
                else if ndim a = 2 \<or> ndim a = 3 then AttributeError ''texture_component_type''
                else ValueError ''Texture needs to be 2d or 3d'')"
    using assms by (subst init_results_bd) simp
  have 3: "built_texture g x t = Some a \<longrightarrow>
            snd (set_texture_task g x t) =
              Inl (if arr_size a = 0 then IndexError
                   else ValueError ''Texture needs to be uint8 or uint16. Let me know if you have others.'')"
    using assms by (simp add: set_texture_task_texture)
  from 1 2 3 show ?thesis by blast
qed

lemma float_built: "built_texture float_script exp_app 2 = Some float_texture"
  by (simp add: float_script_def built_texture_def script_eq exp_app_eq py_index_def
      script_stim_params_def)

lemma sin_built: "built_texture script exp_app 2 = Some (sin_texture (5, 512))"
  by (simp add: built_texture_def script_eq exp_app_eq py_index_def
      script_stim_params_def)

text \<open>A 512 by 512 array of \<open>float64\<close>.\<close>

theorem unsupported_dtype_raises_witness:
  "arr_dtype float_texture \<noteq> np_uint8 \<and> arr_dtype float_texture \<noteq> np_uint16
 \<and> FullFieldDrift_init float_texture 40 0.125 512 512 = Inl (AttributeError ''texture_component_type'')
 \<and> BinocularDrift_init float_texture (- 45, 90) 25 (Finite False 0 (- 1074), Finite False 0 (- 1074))
      (0.03, 0.01) 2 512 512 = Inl (AttributeError ''texture_component_type'')
 \<and> built_texture float_script exp_app 2 = Some float_texture
 \<and> snd (set_texture_task float_script exp_app 2) =
      Inl (ValueError ''Texture needs to be uint8 or uint16. Let me know if you have others.'')"
proof -
  have a: "arr_dtype float_texture \<noteq> np_uint8" and b: "arr_dtype float_texture \<noteq> np_uint16"
    by (simp_all add: float_texture_def)
  have c: "arr_size float_texture \<noteq> 0" "ndim float_texture = 2"
    by (simp_all add: float_texture_def arr_size_def ndim_def)
  show ?thesis
    using a b c float_built
      unsupported_dtype_raises [OF a b, where ang = 40 and vel = "0.125" and sa = "(- 45, 90)"
        and ma = 25 and pos = "(Finite False 0 (- 1074), Finite False 0 (- 1074))"
        and vels = "(0.03, 0.01)" and br = 2 and ws = 512 and ts = 512 and g = float_script
        and x = exp_app and t = 2]
    by simp
qed

text \<open>
  C4, as amended. For every texture array with at least one element whose number of
  dimensions is neither 2 nor 3, \<open>FullFieldDrift.__init__\<close> and \<open>BinocularDrift.__init__\<close>
  raise the \<open>ValueError\<close> of the dimension check, and an invocation of
  \<open>set_texture_task\<close> that builds the texture raises a \<open>ValueError\<close>. For every array of
  2 or 3 dimensions with a supported element type the dimension check passes: none of the
  three raises a \<open>ValueError\<close>.
\<close>

theorem texture_dimensions:
  "(ndim a \<noteq> 2 \<and> ndim a \<noteq> 3 \<and> arr_size a \<noteq> 0 \<longrightarrow>
      FullFieldDrift_init a ang vel ws ts = Inl (ValueError ''Texture needs to be 2d or 3d'')
    \<and> BinocularDrift_init a sa ma pos vels br ws ts
        = Inl (ValueError ''Texture needs to be 2d or 3d'')
    \<and> (built_texture g x t = Some a \<longrightarrow>
         (\<exists>msg. snd (set_texture_task g x t) = Inl (ValueError msg))))
 \<and> ((ndim a = 2 \<or> ndim a = 3) \<and> (arr_dtype a = np_uint8 \<or> arr_dtype a = np_uint16) \<longrightarrow>
      (\<forall>msg. FullFieldDrift_init a ang vel ws ts \<noteq> Inl (ValueError msg))
    \<and> (\<forall>msg. BinocularDrift_init a sa ma pos vels br ws ts \<noteq> Inl (ValueError msg))
    \<and> (built_texture g x t = Some a \<longrightarrow>
         (\<forall>msg. snd (set_texture_task g x t) \<noteq> Inl (ValueError msg))))"
proof -
  have 1: "ndim a \<noteq> 2 \<and> ndim a \<noteq> 3 \<and> arr_size a \<noteq> 0 \<longrightarrow>
      FullFieldDrift_init a ang vel ws ts = Inl (ValueError ''Texture needs to be 2d or 3d'')"
    by (subst init_results) simp
  have 2: "ndim a \<noteq> 2 \<and> ndim a \<noteq> 3 \<and> arr_size a \<noteq> 0 \<longrightarrow>
      BinocularDrift_init a sa ma pos vels br ws ts
        = Inl (ValueError ''Texture needs to be 2d or 3d'')"
    by (subst init_results_bd) simp
  have 3: "ndim a \<noteq> 2 \<and> ndim a \<noteq> 3 \<and> arr_size a \<noteq> 0 \<longrightarrow>
      built_texture g x t = Some a \<longrightarrow>
         (\<exists>msg. snd (set_texture_task g x t) = Inl (ValueError msg))"
    by (simp add: set_texture_task_texture)
  have 4: "built_texture g x t = Some a \<longrightarrow>
      (ndim a = 2 \<or> ndim a = 3) \<and> (arr_dtype a = np_uint8 \<or> arr_dtype a = np_uint16) \<longrightarrow>
         (\<forall>msg. snd (set_texture_task g x t) \<noteq> Inl (ValueError msg))"
    by (auto simp: set_texture_task_texture)
  have 5: "ndim a = 2 \<or> ndim a = 3 \<longrightarrow>
      (\<forall>msg. FullFieldDrift_init a ang vel ws ts \<noteq> Inl (ValueError msg))
    \<and> (\<forall>msg. BinocularDrift_init a sa ma pos vels br ws ts \<noteq> Inl (ValueError msg))"
    using init_no_ValueError [where a = a and ang = ang and vel = vel and sa = sa and ma = ma
        and pos = pos and vels = vels and br = br and ws = ws and ts = ts]
    by blast
  from 1 2 3 4 5 show ?thesis by blast
qed

text \<open>A one-dimensional array of 512 bytes, and the texture of the script.\<close>

theorem texture_dimensions_witness:
  "ndim line_texture = 1 \<and> arr_size line_texture = 512
 \<and> FullFieldDrift_init line_texture 40 0.125 512 512
     = Inl (ValueError ''Texture needs to be 2d or 3d'')
 \<and> BinocularDrift_init line_texture (- 45, 90) 25 (Finite False 0 (- 1074), Finite False 0 (- 1074))
      (0.03, 0.01) 2 512 512 = Inl (ValueError ''Texture needs to be 2d or 3d'')
 \<and> ndim (sin_texture (5, 512)) = 2 \<and> arr_dtype (sin_texture (5, 512)) = np_uint8
 \<and> built_texture script exp_app 2 = Some (sin_texture (5, 512))
 \<and> snd (set_texture_task script exp_app 2)
     \<noteq> Inl (ValueError ''Texture needs to be 2d or 3d (rgb). Let us know if you have others.'')
 \<and> FullFieldDrift_init (sin_texture (5, 512)) 40 0.125 512 512
     \<noteq> Inl (ValueError ''Texture needs to be 2d or 3d'')"
proof -
  have a: "ndim line_texture = 1" "arr_size line_texture = 512"
    by (simp_all add: line_texture_def ndim_def arr_size_def)
  have b: "ndim (sin_texture (5, 512)) = 2" "arr_dtype (sin_texture (5, 512)) = np_uint8"
    by (simp_all add: sin_texture_def ndim_def)
  show ?thesis
    using a b sin_built
      texture_dimensions [where a = line_texture and ang = 40 and vel = "0.125"
        and sa = "(- 45, 90)" and ma = 25
        and pos = "(Finite False 0 (- 1074), Finite False 0 (- 1074))" and vels = "(0.03, 0.01)"
        and br = 2 and ws = 512 and ts = 512 and g = script and x = exp_app and t = 2]
      texture_dimensions [where a = "sin_texture (5, 512)" and ang = 40 and vel = "0.125"
        and sa = "(- 45, 90)" and ma = 25
        and pos = "(Finite False 0 (- 1074), Finite False 0 (- 1074))" and vels = "(0.03, 0.01)"
        and br = 2 and ws = 512 and ts = 512 and g = script and x = exp_app and t = 2]
    by simp
qed

text \<open>
  A one-dimensional array of no elements: both constructors raise \<open>IndexError\<close> at
  \<open>texture_array.flat[0]\<close>, before the dimension check.
\<close>

theorem texture_dimensions_counterexample:
  "ndim empty_texture = 1
 \<and> FullFieldDrift_init empty_texture 40 0.125 512 512 = Inl IndexError
 \<and> BinocularDrift_init empty_texture (- 45, 90) 25 (Finite False 0 (- 1074), Finite False 0 (- 1074))
      (0.03, 0.01) 2 512 512 = Inl IndexError"
  by (simp add: empty_texture_def ndim_def FullFieldDrift_init_def BinocularDrift_init_def
      flat0_type_def arr_size_def)

section \<open>The grating texture\<close>

lemma signal_square_levels: "signal_square t = 1 \<or> signal_square t = - 1"
  by (simp add: signal_square_def)

lemma to_uint8_level:
  "to_uint8 ((signal_square t + 1) * 127.5) = (if signal_square t = 1 then 255 else 0)"
  using signal_square_levels [of t] by (auto simp: to_uint8_def)

lemma square8bit_pointwise:
  "square8bit X freq = map_ndarray (\<lambda>x. if signal_square (x * freq) = 1 then 255 else 0) X"
proof -
  have "(\<lambda>v. (v + 1) * 127.5) \<circ> (\<lambda>x. signal_square (x * freq))
      = (\<lambda>x. (signal_square (x * freq) + 1) * 127.5)"
    by (rule ext) (simp only: comp_apply)
  moreover have "to_uint8 \<circ> (\<lambda>x. (signal_square (x * freq) + 1) * 127.5)
      = (\<lambda>x. if signal_square (x * freq) = 1 then 255 else 0)"
    by (rule ext) (simp only: comp_apply to_uint8_level)
  ultimately show ?thesis
    by (simp only: square8bit_def squareWave_def Let_def ndarray.map_comp comp_assoc)
qed

text \<open>
  C7. For every array \<open>X\<close> and frequency \<open>freq\<close>, \<open>square8bit(X, freq)\<close> is an array of
  8-bit unsigned integers (its type) of the shape of \<open>X\<close>, and every element is 0 or 255.
\<close>

theorem square8bit_levels:
  "set_ndarray (square8bit X freq) \<subseteq> {0, 255}
 \<and> shape_of (square8bit X freq) = shape_of X"
proof
  show "set_ndarray (square8bit X freq) \<subseteq> {0, 255}"
    by (auto simp: square8bit_pointwise ndarray.set_map)
next
  show "shape_of (square8bit X freq) = shape_of X"
    by (simp add: square8bit_pointwise shape_of_def ndarray.map_comp comp_def)
qed

lemma signal_square_0: "signal_square 0 = 1"
  by (simp add: signal_square_def)

lemma signal_square_minus_1: "signal_square (- 1) = - 1"
proof -
  have "\<lfloor>- 1 / (2 * pi)\<rfloor> = - 1"
    using pi_ge_two by (simp add: floor_eq_iff field_simps)
  then show ?thesis
    using pi_ge_two by (simp add: signal_square_def)
qed

text \<open>A 2 by 2 array with one element on each level of the wave.\<close>

theorem square8bit_levels_witness:
  "square8bit (Arr [Arr [Elem 0, Elem (- 1)], Arr [Elem 0, Elem (- 1)]]) 1
     = Arr [Arr [Elem 255, Elem 0], Arr [Elem 255, Elem 0]]
 \<and> set_ndarray (square8bit (Arr [Arr [Elem 0, Elem (- 1)], Arr [Elem 0, Elem (- 1)]]) 1) \<subseteq> {0, 255}
 \<and> shape_of (square8bit (Arr [Arr [Elem 0, Elem (- 1)], Arr [Elem 0, Elem (- 1)]]) 1)
     = Arr [Arr [Elem (), Elem ()], Arr [Elem (), Elem ()]]"
  using square8bit_levels [of "Arr [Arr [Elem 0, Elem (- 1)], Arr [Elem 0, Elem (- 1)]]" 1]
  by (simp add: square8bit_pointwise signal_square_0 signal_square_minus_1 shape_of_def)

section \<open>The binocular masks\<close>

lemma left_mask_row:
  "r < ts \<Longrightarrow> left_mask_array ts br ! r = assign_from (replicate ts 255) (int ts div 2 - br) 0"
  by (simp add: left_mask_array_def ones255_def)

lemma right_mask_row:
  "r < ts \<Longrightarrow> right_mask_array ts br ! r = assign_upto (replicate ts 255) (int ts div 2 + br) 0"
  by (simp add: right_mask_array_def ones255_def)

lemma assign_from_nth:
  assumes "0 \<le> start" and "c < n"
  shows "assign_from (replicate n v) start w ! c = (if int c < start then v else w)"
  using assms by (auto simp: assign_from_def slice_bound_def Let_def nth_append)

lemma assign_upto_nth:
  assumes "0 \<le> stop" and "c < n"
  shows "assign_upto (replicate n v) stop w ! c = (if int c < stop then w else v)"
  using assms by (auto simp: assign_upto_def slice_bound_def Let_def nth_append)

lemma mask_shapes:
  "length (left_mask_array ts br) = ts \<and> length (right_mask_array ts br) = ts
 \<and> (\<forall>row \<in> set (left_mask_array ts br). length row = ts)
 \<and> (\<forall>row \<in> set (right_mask_array ts br). length row = ts)"
  by (auto simp: left_mask_array_def right_mask_array_def ones255_def assign_from_def
      assign_upto_def slice_bound_def Let_def)

lemma BinocularDrift_init_masks:
  assumes "BinocularDrift_init a sa ma pos vels br ws ts = Inr b"
  shows "left_mask b = left_mask_array ts br \<and> right_mask b = right_mask_array ts br"
  using assms by (auto simp: BinocularDrift_init_def split: sum.splits)

text \<open>
  C8. For \<open>texture_size > 0\<close> and \<open>0 \<le> band_radius \<le> texture_size // 2\<close>, the mask
  arrays that lines 180-183 of \<open>BinocularDrift.__init__\<close> build satisfy at every row
  \<open>r\<close> and column \<open>c\<close>: \<open>left_mask_array\<close> is 255 exactly when \<open>c < texture_size // 2 -
  band_radius\<close> and 0 otherwise, \<open>right_mask_array\<close> is 255 exactly when \<open>c \<ge>
  texture_size // 2 + band_radius\<close> and 0 otherwise, no pixel is 255 in both, and the
  central band is 0 in both; and these arrays are the masks of the object whenever the
  constructor completes.
\<close>

theorem mask_arrays:
  assumes "0 < ts" and "0 \<le> br" and "br \<le> int ts div 2" and "r < ts" and "c < ts"
  shows "left_mask_array ts br ! r ! c = (if int c < int ts div 2 - br then 255 else 0)
       \<and> right_mask_array ts br ! r ! c = (if int ts div 2 + br \<le> int c then 255 else 0)
       \<and> \<not> (left_mask_array ts br ! r ! c = 255 \<and> right_mask_array ts br ! r ! c = 255)
       \<and> (int ts div 2 - br \<le> int c \<and> int c < int ts div 2 + br \<longrightarrow>
            left_mask_array ts br ! r ! c = 0 \<and> right_mask_array ts br ! r ! c = 0)
       \<and> (BinocularDrift_init a sa ma pos vels br ws ts = Inr b \<longrightarrow>
            left_mask b = left_mask_array ts br \<and> right_mask b = right_mask_array ts br
          \<and> left_mask b ! r ! c = (if int c < int ts div 2 - br then 255 else 0)
          \<and> right_mask b ! r ! c = (if int ts div 2 + br \<le> int c then 255 else 0))"
proof -
  have l: "left_mask_array ts br ! r ! c = (if int c < int ts div 2 - br then 255 else 0)"
    using assms by (simp add: left_mask_row assign_from_nth)
  have "0 \<le> int ts div 2 + br" using assms by simp
  then have rr: "right_mask_array ts br ! r ! c = (if int ts div 2 + br \<le> int c then 255 else 0)"
    using assms by (simp add: right_mask_row assign_upto_nth)
  have m: "BinocularDrift_init a sa ma pos vels br ws ts = Inr b \<longrightarrow>
            left_mask b = left_mask_array ts br \<and> right_mask b = right_mask_array ts br"
    using BinocularDrift_init_masks [of a sa ma pos vels br ws ts b] by blast
  from l rr m assms(2) show ?thesis by auto
qed

lemma test_case_4_built: "test_case_4 = Inr (projr test_case_4)"
  by (simp add: test_case_4_def BinocularDrift_init_def flat0_type_def arr_size_def
      sin_texture_def setup_texture_def select_component_type_def ndim_def ram_image_fits_def
      itemsize_def component_width_def)

text \<open>
  Test case 4 of the module: \<open>texture_size = 512\<close> and \<open>band_radius = 2\<close>, so the band is
  the columns 254 to 257.
\<close>

theorem mask_arrays_witness:
  "test_case_4 = Inr (projr test_case_4)
 \<and> left_mask (projr test_case_4) = left_mask_array 512 2
 \<and> right_mask (projr test_case_4) = right_mask_array 512 2
 \<and> left_mask (projr test_case_4) ! 10 ! 253 = 255
 \<and> right_mask (projr test_case_4) ! 10 ! 253 = 0
 \<and> left_mask (projr test_case_4) ! 10 ! 254 = 0
 \<and> right_mask (projr test_case_4) ! 10 ! 254 = 0
 \<and> left_mask (projr test_case_4) ! 10 ! 257 = 0
 \<and> right_mask (projr test_case_4) ! 10 ! 257 = 0
 \<and> left_mask (projr test_case_4) ! 10 ! 258 = 0
 \<and> right_mask (projr test_case_4) ! 10 ! 258 = 255"
proof -
  note b = test_case_4_built [unfolded test_case_4_def]
  note inst = mask_arrays [where ts = 512 and br = 2 and r = 10 and ws = 512
      and a = "sin_texture (25, 512)" and sa = "(- 45, 90)" and ma = 25
      and pos = "(Finite False 7205759403792794 (- 56), Finite True 7205759403792794 (- 54))"
      and vels = "(0.03, 0.01)"
      and b = "projr (BinocularDrift_init (sin_texture (25, 512)) (- 45, 90) 25
                 (Finite False 7205759403792794 (- 56), Finite True 7205759403792794 (- 54))
                 (0.03, 0.01) 2 512 512)"]
  have t: "test_case_4 = Inr (projr test_case_4)" by (rule test_case_4_built)
  show ?thesis
    using t b inst [of 253] inst [of 254] inst [of 257] inst [of 258]
    by (simp add: test_case_4_def)
qed

section \<open>The coordinate conversions\<close>

lemma half_even_double: "half_even (2 * m) = m"
  by (simp add: half_even_def)

lemma half_even_odd:
  assumes "odd m"
  shows "2 * half_even m \<noteq> m"
proof
  assume "2 * half_even m = m"
  then have "even m" by (metis dvd_triv_left)
  with assms show False by simp
qed

text \<open>
  C9, as amended. For every binary64 float \<open>v\<close>: \<open>uv2ndc(ndc2uv(v)) == v\<close> holds
  exactly when \<open>v\<close> is not NaN and is not \<open>\<plusminus> m \<sqdot> 2\<^sup>-\<^sup>1\<^sup>0\<^sup>7\<^sup>4\<close> with an odd mantissa
  \<open>m\<close>, where the half is rounded; and \<open>ndc2uv(uv2ndc(v)) == v\<close> holds exactly when
  \<open>v\<close> is not NaN and does not have the largest exponent 971, where the double is an
  infinity.
\<close>

theorem coordinate_round_trip:
  assumes "is_binary64 v"
  shows "(float_eq (uv2ndc (ndc2uv v)) v
            \<longleftrightarrow> v \<noteq> NaN \<and> (\<forall>sg m. v = Finite sg m (- 1074) \<longrightarrow> even m))
       \<and> (float_eq (ndc2uv (uv2ndc v)) v
            \<longleftrightarrow> v \<noteq> NaN \<and> (\<forall>sg m. v \<noteq> Finite sg m 971))"
proof (cases v)
  case (Finite sg m e)
  with assms have wf: "m < 2 ^ 53" "- 1074 \<le> e" "e \<le> 971" "e = - 1074 \<or> 2 ^ 52 \<le> m"
    by (simp_all add: is_binary64_def)
  have a: "float_eq (uv2ndc (ndc2uv v)) v \<longleftrightarrow> (e = - 1074 \<longrightarrow> even m)"
  proof (cases "- 1074 < e")
    case True
    with wf Finite show ?thesis
      by (simp add: uv2ndc_def ndc2uv_def float_half_def float_double_def)
  next
    case False
    with wf have e: "e = - 1074" by simp
    show ?thesis
    proof (cases "even m")
      case True
      then have h: "half_even m = m div 2" by (simp add: half_even_def)
      from wf have "m div 2 < 2 ^ 52" by simp
      with True Finite e h show ?thesis
        by (simp add: uv2ndc_def ndc2uv_def float_half_def float_double_def)
    next
      case False
      from half_even_odd [OF False] have ne: "2 * half_even m \<noteq> m" by simp
      from False have "m \<noteq> 0" by (auto intro: ccontr)
      with False Finite e ne show ?thesis
        by (simp add: uv2ndc_def ndc2uv_def float_half_def float_double_def)
    qed
  qed
  have b: "float_eq (ndc2uv (uv2ndc v)) v \<longleftrightarrow> e \<noteq> 971"
  proof (cases "m < 2 ^ 52")
    case True
    with wf have "e = - 1074" by simp
    with True Finite show ?thesis
      by (simp add: uv2ndc_def ndc2uv_def float_half_def float_double_def half_even_double)
  next
    case False
    with wf Finite show ?thesis
      by (auto simp: uv2ndc_def ndc2uv_def float_half_def float_double_def)
  qed
  from a b Finite show ?thesis by auto
next
  case (Infinity sg)
  then show ?thesis
    by (simp add: uv2ndc_def ndc2uv_def float_half_def float_double_def)
next
  case NaN
  then show ?thesis
    by (simp add: uv2ndc_def ndc2uv_def float_half_def float_double_def)
qed

text \<open>The coordinate 0.5, that is \<open>2\<^sup>5\<^sup>2 \<sqdot> 2\<^sup>-\<^sup>5\<^sup>3\<close>.\<close>

theorem coordinate_round_trip_witness:
  "is_binary64 (Finite False (2 ^ 52) (- 53))
 \<and> float_eq (uv2ndc (ndc2uv (Finite False (2 ^ 52) (- 53)))) (Finite False (2 ^ 52) (- 53))
 \<and> float_eq (ndc2uv (uv2ndc (Finite False (2 ^ 52) (- 53)))) (Finite False (2 ^ 52) (- 53))
 \<and> ndc2uv (Finite False (2 ^ 52) (- 53)) = Finite False (2 ^ 52) (- 54)
 \<and> uv2ndc (Finite False (2 ^ 52) (- 53)) = Finite False (2 ^ 52) (- 52)"
proof -
  have w: "is_binary64 (Finite False (2 ^ 52) (- 53))"
    by (simp add: is_binary64_def)
  show ?thesis
    using w coordinate_round_trip [OF w]
    by (simp add: uv2ndc_def ndc2uv_def float_half_def float_double_def)
qed

text \<open>
  The smallest positive float \<open>2\<^sup>-\<^sup>1\<^sup>0\<^sup>7\<^sup>4\<close> (5e-324) halves to zero and comes back as
  zero; the largest finite float doubles to infinity and comes back as infinity.
\<close>

theorem coordinate_round_trip_counterexample:
  "is_binary64 (Finite False 1 (- 1074))
 \<and> ndc2uv (Finite False 1 (- 1074)) = Finite False 0 (- 1074)
 \<and> uv2ndc (ndc2uv (Finite False 1 (- 1074))) = Finite False 0 (- 1074)
 \<and> float_eq (uv2ndc (ndc2uv (Finite False 1 (- 1074)))) (Finite False 1 (- 1074)) = False
 \<and> is_binary64 (Finite False (2 ^ 53 - 1) 971)
 \<and> uv2ndc (Finite False (2 ^ 53 - 1) 971) = Infinity False
 \<and> float_eq (ndc2uv (uv2ndc (Finite False (2 ^ 53 - 1) 971))) (Finite False (2 ^ 53 - 1) 971) = False"
  by (simp add: is_binary64_def uv2ndc_def ndc2uv_def float_half_def float_double_def half_even_def)

end
